theory Spec2Isabelle
  imports Complex_Main
begin

section \<open>Time values and their arithmetic\<close>

text \<open>
  A \<open>Time\<close> is a pair of whole seconds and nanoseconds; a \<open>Duration\<close> has the same shape.
  The JavaScript numbers held in the two fields are integers, so they are modelled as \<open>int\<close>.
\<close>

record Time =
  sec :: int
  nsec :: int

type_synonym Duration = Time

datatype error =
  InvalidTime Time
  | CannotReparent string string string
  | NotAParent string string
  | UndefinedKey

definition wf_time :: "Time \<Rightarrow> bool" where
  "wf_time t = (0 \<le> nsec t \<and> nsec t < 1000000000)"

text \<open>
  Modelled from the spec: the time library (\<open>compare\<close>, \<open>subtract\<close>, \<open>areEqual\<close>,
  \<open>isLessThan\<close>, \<open>percentOf\<close>, \<open>interpolate\<close>) is imported by CoordinateFrame.ts and is not
  part of the sources at hand. The spec fixes a total order by (seconds, subseconds), a
  subtraction that yields a signed duration, and arithmetic that never produces negative
  subseconds (borrow and carry are normalised). \<open>jsrem\<close> is the remainder of JavaScript's
  \<open>%\<close>, which takes the sign of the dividend.
\<close>

definition compare :: "Time \<Rightarrow> Time \<Rightarrow> int" where
  "compare left right =
     (let secDiff = sec left - sec right
      in if secDiff \<noteq> 0 then secDiff else nsec left - nsec right)"

definition isLessThan :: "Time \<Rightarrow> Time \<Rightarrow> bool" where
  "isLessThan left right = (compare left right < 0)"

definition areEqual :: "Time \<Rightarrow> Time \<Rightarrow> bool" where
  "areEqual left right = (sec left = sec right \<and> nsec left = nsec right)"

definition jsrem :: "int \<Rightarrow> int \<Rightarrow> int" where
  "jsrem a b = sgn a * (\<bar>a\<bar> mod \<bar>b\<bar>)"

definition fixTime :: "Time \<Rightarrow> bool \<Rightarrow> error + Time" where
  "fixTime t allowNegative =
     (let durationNanos = nsec t;
          secsFromNanos = durationNanos div 1000000000;
          newSecs = sec t + secsFromNanos;
          remainingDurationNanos = jsrem durationNanos 1000000000;
          newNanos = \<bar>if sgn remainingDurationNanos = - 1
                       then 1000000000 + remainingDurationNanos
                       else remainingDurationNanos\<bar>;
          result = \<lparr>sec = newSecs, nsec = newNanos\<rparr>
      in if (\<not> allowNegative \<and> sec result < 0) \<or> nsec result < 0
         then Inl (InvalidTime result) else Inr result)"

definition add :: "Time \<Rightarrow> Time \<Rightarrow> error + Time" where
  "add t1 t2 = fixTime \<lparr>sec = sec t1 + sec t2, nsec = nsec t1 + nsec t2\<rparr> False"

definition subtract :: "Time \<Rightarrow> Time \<Rightarrow> error + Time" where
  "subtract t1 t2 = fixTime \<lparr>sec = sec t1 - sec t2, nsec = nsec t1 - nsec t2\<rparr> True"

definition toNanoSec :: "Time \<Rightarrow> int" where
  "toNanoSec t = sec t * 1000000000 + nsec t"

definition toSec :: "Time \<Rightarrow> real" where
  "toSec t = real_of_int (sec t) + real_of_int (nsec t) * (1 / 1000000000)"

definition trunc :: "real \<Rightarrow> int" where
  "trunc r = (if 0 \<le> r then \<lfloor>r\<rfloor> else \<lceil>r\<rceil>)"

definition fromSec :: "real \<Rightarrow> Time" where
  "fromSec v =
     (let sec0 = trunc v;
          nsec0 = \<lfloor>(v - real_of_int sec0) * 1000000000 + 1 / 2\<rfloor>;
          sec1 = sec0 + trunc (real_of_int nsec0 / 1000000000);
          nsec1 = jsrem nsec0 1000000000
      in \<lparr>sec = sec1, nsec = nsec1\<rparr>)"

definition percentOf :: "Time \<Rightarrow> Time \<Rightarrow> Time \<Rightarrow> error + real" where
  "percentOf start end target =
     (case subtract end start of
        Inl e \<Rightarrow> Inl e
      | Inr totalDuration \<Rightarrow>
          (case subtract target start of
             Inl e \<Rightarrow> Inl e
           | Inr targetDuration \<Rightarrow> Inr (toSec targetDuration / toSec totalDuration)))"

definition interpolate :: "Time \<Rightarrow> Time \<Rightarrow> real \<Rightarrow> error + Time" where
  "interpolate start end fraction =
     (case subtract end start of
        Inl e \<Rightarrow> Inl e
      | Inr duration \<Rightarrow> add start (fromSec (fraction * toSec duration)))"

section \<open>Vectors, quaternions and matrices\<close>

text \<open>
  Modelled from the spec: the vector, quaternion and 4x4 matrix routines come from the
  linear-algebra library that CoordinateFrame.ts and Transform.ts import; they are not part of
  the sources at hand. A matrix is column-major with sixteen entries (entries 12, 13 and 14
  hold the translation), a quaternion is ordered x, y, z, w. JavaScript numbers are modelled
  as \<open>real\<close>. \<open>multiply\<close> and \<open>transpose\<close> read their arguments before they write
  the result, so calling them with the output aliased to an input, as the source does, gives
  the value computed here. Division by zero, which gives an infinity or NaN in JavaScript and
  0 here, occurs only for a matrix with a zero column or a vanishing \<open>S\<close>; no theorem below
  evaluates the routines there. \<open>getRotation\<close> divides each column of the rotation block by its
  length before it extracts the quaternion: the first test of TransformTree.test.ts stores
  the rotation (1,2,3,4) and expects the orientation (0.2423.., 0.2784.., 0.6759.., 0.4836..)
  back, which is the value of this extraction on the matrix of the quaternion as given.
\<close>

datatype vec3 = Vec3 real real real

datatype quat = Quat real real real real

datatype mat4 = Mat4
  (m0: real) (m1: real) (m2: real) (m3: real)
  (m4: real) (m5: real) (m6: real) (m7: real)
  (m8: real) (m9: real) (m10: real) (m11: real)
  (m12: real) (m13: real) (m14: real) (m15: real)

definition mat4Identity :: mat4 where
  "mat4Identity = Mat4 1 0 0 0  0 1 0 0  0 0 1 0  0 0 0 1"

fun multiply :: "mat4 \<Rightarrow> mat4 \<Rightarrow> mat4" where
  "multiply (Mat4 a00 a01 a02 a03 a10 a11 a12 a13 a20 a21 a22 a23 a30 a31 a32 a33)
            (Mat4 b00 b01 b02 b03 b10 b11 b12 b13 b20 b21 b22 b23 b30 b31 b32 b33) =
     Mat4 (b00 * a00 + b01 * a10 + b02 * a20 + b03 * a30)
          (b00 * a01 + b01 * a11 + b02 * a21 + b03 * a31)
          (b00 * a02 + b01 * a12 + b02 * a22 + b03 * a32)
          (b00 * a03 + b01 * a13 + b02 * a23 + b03 * a33)
          (b10 * a00 + b11 * a10 + b12 * a20 + b13 * a30)
          (b10 * a01 + b11 * a11 + b12 * a21 + b13 * a31)
          (b10 * a02 + b11 * a12 + b12 * a22 + b13 * a32)
          (b10 * a03 + b11 * a13 + b12 * a23 + b13 * a33)
          (b20 * a00 + b21 * a10 + b22 * a20 + b23 * a30)
          (b20 * a01 + b21 * a11 + b22 * a21 + b23 * a31)
          (b20 * a02 + b21 * a12 + b22 * a22 + b23 * a32)
          (b20 * a03 + b21 * a13 + b22 * a23 + b23 * a33)
          (b30 * a00 + b31 * a10 + b32 * a20 + b33 * a30)
          (b30 * a01 + b31 * a11 + b32 * a21 + b33 * a31)
          (b30 * a02 + b31 * a12 + b32 * a22 + b33 * a32)
          (b30 * a03 + b31 * a13 + b32 * a23 + b33 * a33)"

fun transpose_mat4 :: "mat4 \<Rightarrow> mat4" where
  "transpose_mat4 (Mat4 a0 a1 a2 a3 a4 a5 a6 a7 a8 a9 a10 a11 a12 a13 a14 a15) =
     Mat4 a0 a4 a8 a12  a1 a5 a9 a13  a2 a6 a10 a14  a3 a7 a11 a15"

definition setTranslation :: "mat4 \<Rightarrow> real \<Rightarrow> real \<Rightarrow> real \<Rightarrow> mat4" where
  "setTranslation m x y z =
     Mat4 (m0 m) (m1 m) (m2 m) (m3 m) (m4 m) (m5 m) (m6 m) (m7 m)
          (m8 m) (m9 m) (m10 m) (m11 m) x y z (m15 m)"

fun fromRotationTranslation :: "quat \<Rightarrow> vec3 \<Rightarrow> mat4" where
  "fromRotationTranslation (Quat x y z w) (Vec3 v0 v1 v2) =
     (let x2 = x + x; y2 = y + y; z2 = z + z;
          xx = x * x2; xy = x * y2; xz = x * z2;
          yy = y * y2; yz = y * z2; zz = z * z2;
          wx = w * x2; wy = w * y2; wz = w * z2
      in Mat4 (1 - (yy + zz)) (xy + wz) (xz - wy) 0
              (xy - wz) (1 - (xx + zz)) (yz + wx) 0
              (xz + wy) (yz - wx) (1 - (xx + yy)) 0
              v0 v1 v2 1)"

definition getTranslation :: "mat4 \<Rightarrow> vec3" where
  "getTranslation m = Vec3 (m12 m) (m13 m) (m14 m)"

definition getScaling :: "mat4 \<Rightarrow> vec3" where
  "getScaling m =
     Vec3 (sqrt (m0 m * m0 m + m1 m * m1 m + m2 m * m2 m))
          (sqrt (m4 m * m4 m + m5 m * m5 m + m6 m * m6 m))
          (sqrt (m8 m * m8 m + m9 m * m9 m + m10 m * m10 m))"

definition getRotation :: "mat4 \<Rightarrow> quat" where
  "getRotation m =
     (case getScaling m of
        Vec3 s1 s2 s3 \<Rightarrow>
          (let is1 = 1 / s1; is2 = 1 / s2; is3 = 1 / s3;
               sm11 = m0 m * is1; sm12 = m1 m * is1; sm13 = m2 m * is1;
               sm21 = m4 m * is2; sm22 = m5 m * is2; sm23 = m6 m * is2;
               sm31 = m8 m * is3; sm32 = m9 m * is3; sm33 = m10 m * is3;
               trace = sm11 + sm22 + sm33
           in if 0 < trace then
                (let S = sqrt (trace + 1) * 2
                 in Quat ((sm23 - sm32) / S) ((sm31 - sm13) / S) ((sm12 - sm21) / S) (0.25 * S))
              else if sm22 < sm11 \<and> sm33 < sm11 then
                (let S = sqrt (1 + sm11 - sm22 - sm33) * 2
                 in Quat (0.25 * S) ((sm12 + sm21) / S) ((sm31 + sm13) / S) ((sm23 - sm32) / S))
              else if sm33 < sm22 then
                (let S = sqrt (1 + sm22 - sm11 - sm33) * 2
                 in Quat ((sm12 + sm21) / S) (0.25 * S) ((sm23 + sm32) / S) ((sm31 - sm13) / S))
              else
                (let S = sqrt (1 + sm33 - sm11 - sm22) * 2
                 in Quat ((sm31 + sm13) / S) ((sm23 + sm32) / S) (0.25 * S)
                      ((sm12 - sm21) / S))))"

fun normalize :: "quat \<Rightarrow> quat" where
  "normalize (Quat x y z w) =
     (let len = x * x + y * y + z * z + w * w;
          len' = (if 0 < len then 1 / sqrt len else len)
      in Quat (x * len') (y * len') (z * len') (w * len'))"

fun lerp :: "vec3 \<Rightarrow> vec3 \<Rightarrow> real \<Rightarrow> vec3" where
  "lerp (Vec3 ax ay az) (Vec3 bx by bz) t =
     Vec3 (ax + t * (bx - ax)) (ay + t * (by - ay)) (az + t * (bz - az))"

definition EPSILON :: real where
  "EPSILON = 0.000001"

fun slerp :: "quat \<Rightarrow> quat \<Rightarrow> real \<Rightarrow> quat" where
  "slerp (Quat ax ay az aw) (Quat bx0 by0 bz0 bw0) t =
     (let cosom0 = ax * bx0 + ay * by0 + az * bz0 + aw * bw0;
          flip = (cosom0 < 0);
          cosom = (if flip then - cosom0 else cosom0);
          bx = (if flip then - bx0 else bx0);
          by = (if flip then - by0 else by0);
          bz = (if flip then - bz0 else bz0);
          bw = (if flip then - bw0 else bw0);
          omega = arccos cosom;
          sinom = sin omega;
          scale0 = (if EPSILON < 1 - cosom then sin ((1 - t) * omega) / sinom else 1 - t);
          scale1 = (if EPSILON < 1 - cosom then sin (t * omega) / sinom else t)
      in Quat (scale0 * ax + scale1 * bx) (scale0 * ay + scale1 * by)
              (scale0 * az + scale1 * bz) (scale0 * aw + scale1 * bw))"

section \<open>Poses and transforms\<close>

record Pose =
  position :: vec3
  orientation :: quat

text \<open>
  Modelled from the spec: the Transform class (Transform.ts) is not part of the sources at
  hand. Per the spec a rigid transform is a translation and a rotation quaternion that is
  treated as normalised on construction, with a cached column-major matrix consistent with
  both; it converts to and from a pose and a matrix; interpolation is linear on the
  translation and spherical on the rotation, and renormalises. The constructor and the
  setters keep the quaternion they are given (the test named above shows that the matrix is
  built from the quaternion as given). Every setter overwrites all three fields, so the
  receiver's previous value does not occur as an argument.
\<close>

record Transform =
  position_t :: vec3
  rotation_t :: quat
  matrix_t :: mat4

definition setPositionRotation :: "vec3 \<Rightarrow> quat \<Rightarrow> Transform" where
  "setPositionRotation p r =
     \<lparr>position_t = p, rotation_t = r, matrix_t = fromRotationTranslation r p\<rparr>"

definition Identity :: Transform where
  "Identity = setPositionRotation (Vec3 0 0 0) (Quat 0 0 0 1)"

definition setPose :: "Pose \<Rightarrow> Transform" where
  "setPose pose = setPositionRotation (position pose) (orientation pose)"

definition setMatrix :: "mat4 \<Rightarrow> Transform" where
  "setMatrix m = \<lparr>position_t = getTranslation m, rotation_t = getRotation m, matrix_t = m\<rparr>"

definition toPose :: "Transform \<Rightarrow> Pose \<Rightarrow> Pose" where
  "toPose tf out = out\<lparr>position := position_t tf, orientation := rotation_t tf\<rparr>"

definition copy :: "Transform \<Rightarrow> Transform" where
  "copy other = \<lparr>position_t = position_t other, rotation_t = rotation_t other,
                 matrix_t = matrix_t other\<rparr>"

definition Interpolate_t :: "Transform \<Rightarrow> Transform \<Rightarrow> real \<Rightarrow> Transform" where
  "Interpolate_t a b t =
     setPositionRotation (lerp (position_t a) (position_t b) t)
                         (normalize (slerp (rotation_t a) (rotation_t b) t))"

section \<open>Ordered transform history\<close>

text \<open>
  Modelled from the spec: the balanced tree that holds a frame's history comes from an
  imported library. Per the spec it is an ordered mapping from time to transform with
  strictly increasing keys, in which inserting at a present key overwrites the entry. It is
  modelled as an association list kept in key order by \<open>compare\<close>; absent results
  (\<open>undefined\<close> in the source) are \<open>None\<close>.
\<close>

type_synonym TimeAndTransform = "Time \<times> Transform"

type_synonym history = "TimeAndTransform list"

definition size_avl :: "history \<Rightarrow> nat" where
  "size_avl ts = length ts"

fun set_avl :: "Time \<Rightarrow> Transform \<Rightarrow> history \<Rightarrow> history" where
  "set_avl k v [] = [(k, v)]"
| "set_avl k v (e # es) =
     (if compare k (fst e) < 0 then (k, v) # e # es
      else if compare k (fst e) = 0 then (fst e, v) # es
      else e # set_avl k v es)"

definition minEntry :: "history \<Rightarrow> TimeAndTransform option" where
  "minEntry ts = (case ts of [] \<Rightarrow> None | e # es \<Rightarrow> Some e)"

definition maxEntry :: "history \<Rightarrow> TimeAndTransform option" where
  "maxEntry ts = (if ts = [] then None else Some (last ts))"

definition minKey :: "history \<Rightarrow> Time option" where
  "minKey ts = map_option fst (minEntry ts)"

definition maxKey :: "history \<Rightarrow> Time option" where
  "maxKey ts = map_option fst (maxEntry ts)"

definition shift :: "history \<Rightarrow> history" where
  "shift ts = (case ts of [] \<Rightarrow> [] | e # es \<Rightarrow> es)"

fun findLessThanOrEqual :: "history \<Rightarrow> Time \<Rightarrow> TimeAndTransform option" where
  "findLessThanOrEqual [] k = None"
| "findLessThanOrEqual (e # es) k =
     (if compare (fst e) k \<le> 0
      then (case findLessThanOrEqual es k of None \<Rightarrow> Some e | Some e' \<Rightarrow> Some e')
      else None)"

fun findGreaterThan :: "history \<Rightarrow> Time \<Rightarrow> TimeAndTransform option" where
  "findGreaterThan [] k = None"
| "findGreaterThan (e # es) k =
     (if 0 < compare (fst e) k then Some e else findGreaterThan es k)"

definition sorted_keys :: "history \<Rightarrow> bool" where
  "sorted_keys ts = sorted_wrt (\<lambda>a b. compare (fst a) (fst b) < 0) ts"

section \<open>Coordinate frames\<close>

text \<open>
  Frames are objects compared by reference (\<open>===\<close>) in some places and by their \<open>id\<close>
  string in others, and a frame points to its parent. A frame is therefore a record in a
  store indexed by references; \<open>parent\<close> holds the parent's reference, if any.
\<close>

type_synonym ref = nat

record CoordinateFrame =
  id_frame :: string
  maxStorageTime :: Duration
  parent :: "ref option"
  transforms :: history

type_synonym heap = "ref \<Rightarrow> CoordinateFrame"

definition DEFAULT_MAX_STORAGE_TIME :: Duration where
  "DEFAULT_MAX_STORAGE_TIME = \<lparr>sec = 10, nsec = 0\<rparr>"

definition CoordinateFrame_new :: "string \<Rightarrow> ref option \<Rightarrow> Duration \<Rightarrow> CoordinateFrame" where
  "CoordinateFrame_new i p maxStorage =
     \<lparr>id_frame = i, maxStorageTime = maxStorage, parent = p, transforms = []\<rparr>"

text \<open>
  \<open>setParent\<close> returns the error thrown, if any, together with the store after the call.
\<close>

definition setParent :: "heap \<Rightarrow> ref \<Rightarrow> ref \<Rightarrow> error option \<times> heap" where
  "setParent h this parent' =
     (case parent (h this) of
        Some p \<Rightarrow>
          if p \<noteq> parent'
          then (Some (CannotReparent (id_frame (h this)) (id_frame (h p)) (id_frame (h parent'))), h)
          else (None, h(this := (h this)\<lparr>parent := Some parent'\<rparr>))
      | None \<Rightarrow> (None, h(this := (h this)\<lparr>parent := Some parent'\<rparr>)))"

partial_function (option) findAncestor_loop ::
  "heap \<Rightarrow> string \<Rightarrow> ref option \<Rightarrow> ref option option" where
  "findAncestor_loop h i ancestor =
     (case ancestor of
        None \<Rightarrow> Some None
      | Some a \<Rightarrow>
          if id_frame (h a) = i then Some (Some a)
          else findAncestor_loop h i (parent (h a)))"

definition findAncestor :: "heap \<Rightarrow> ref \<Rightarrow> string \<Rightarrow> ref option option" where
  "findAncestor h this i = findAncestor_loop h i (parent (h this))"

function addTransform_loop :: "Time \<Rightarrow> history \<Rightarrow> error + history" where
  "addTransform_loop startTime ts =
     (if 1 < size_avl ts then
        (case minKey ts of
           None \<Rightarrow> Inl UndefinedKey
         | Some k \<Rightarrow>
             if isLessThan k startTime then addTransform_loop startTime (shift ts)
             else Inr ts)
      else Inr ts)"
  by pat_completeness auto
termination
  by (relation "measure (\<lambda>(startTime, ts). length ts)")
     (auto simp: size_avl_def shift_def split: list.splits)

declare addTransform_loop.simps [simp del]

definition addTransform :: "CoordinateFrame \<Rightarrow> Time \<Rightarrow> Transform \<Rightarrow> error + CoordinateFrame" where
  "addTransform this time transform =
     (let ts = set_avl time transform (transforms this)
      in case maxKey ts of
           None \<Rightarrow> Inl UndefinedKey
         | Some endTime \<Rightarrow>
             (case subtract endTime (maxStorageTime this) of
                Inl e \<Rightarrow> Inl e
              | Inr startTime \<Rightarrow>
                  (case addTransform_loop startTime ts of
                     Inl e \<Rightarrow> Inl e
                   | Inr ts' \<Rightarrow> Inr (this\<lparr>transforms := ts'\<rparr>))))"

text \<open>
  A sequence of \<open>addTransform\<close> calls on one frame, stopping at the first error.
\<close>

fun addTransforms :: "CoordinateFrame \<Rightarrow> (Time \<times> Transform) list \<Rightarrow> error + CoordinateFrame" where
  "addTransforms this [] = Inr this"
| "addTransforms this ((time, transform) # rest) =
     (case addTransform this time transform of
        Inl e \<Rightarrow> Inl e
      | Inr this' \<Rightarrow> addTransforms this' rest)"

definition isDiffWithinDelta :: "Time \<Rightarrow> Time \<Rightarrow> Duration \<Rightarrow> error + bool" where
  "isDiffWithinDelta timeA timeB delta =
     (case subtract timeA timeB of
        Inl e \<Rightarrow> Inl e
      | Inr diff \<Rightarrow> Inr (compare (diff\<lparr>sec := \<bar>sec diff\<bar>\<rparr>) delta \<le> 0))"

text \<open>
  \<open>findClosestTransforms\<close> returns \<open>None\<close> for \<open>false\<close> and the pair written to
  \<open>outLower\<close> and \<open>outUpper\<close> for \<open>true\<close>. The source repeats one block three times
  (for the only, the first and the last entry): take the entry, and accept it as both ends
  if \<open>isDiffWithinDelta\<close> holds; \<open>clampTo\<close> is that block.
\<close>

definition clampTo ::
  "TimeAndTransform option \<Rightarrow> Time \<Rightarrow> Duration \<Rightarrow>
   error + (TimeAndTransform \<times> TimeAndTransform) option" where
  "clampTo entry time maxDelta =
     (case entry of
        None \<Rightarrow> Inl UndefinedKey
      | Some e \<Rightarrow>
          (case isDiffWithinDelta time (fst e) maxDelta of
             Inl err \<Rightarrow> Inl err
           | Inr close \<Rightarrow> if close then Inr (Some (e, e)) else Inr None))"

definition findClosestTransforms ::
  "CoordinateFrame \<Rightarrow> Time \<Rightarrow> Duration \<Rightarrow>
   error + (TimeAndTransform \<times> TimeAndTransform) option" where
  "findClosestTransforms this time maxDelta =
     (if size_avl (transforms this) = 0 then Inr None
      else if size_avl (transforms this) = 1
      then clampTo (maxEntry (transforms this)) time maxDelta
      else
        (case findLessThanOrEqual (transforms this) time of
           None \<Rightarrow> clampTo (minEntry (transforms this)) time maxDelta
         | Some lte \<Rightarrow>
             if areEqual (fst lte) time then Inr (Some (lte, lte))
             else
               (case findGreaterThan (transforms this) time of
                  None \<Rightarrow> clampTo (maxEntry (transforms this)) time maxDelta
                | Some gt \<Rightarrow> Inr (Some (lte, gt)))))"

definition copyTime :: "Time \<Rightarrow> Time \<Rightarrow> Time" where
  "copyTime out time = out\<lparr>sec := sec time, nsec := nsec time\<rparr>"

text \<open>
  \<open>Interpolate\<close> takes the optional \<open>outTime\<close> object and returns it, updated, with the
  transform written to \<open>outTf\<close>.
\<close>

definition Interpolate ::
  "Time option \<Rightarrow> TimeAndTransform \<Rightarrow> TimeAndTransform \<Rightarrow> Time \<Rightarrow>
   error + Time option \<times> Transform" where
  "Interpolate outTime lower upper time =
     (let lowerTime = fst lower; lowerTf = snd lower;
          upperTime = fst upper; upperTf = snd upper
      in if areEqual lowerTime upperTime
         then Inr (map_option (\<lambda>ot. copyTime ot upperTime) outTime, copy upperTf)
         else
           (case percentOf lowerTime upperTime time of
              Inl e \<Rightarrow> Inl e
            | Inr p \<Rightarrow>
                (let fraction = max 0 (min 1 p)
                 in case outTime of
                      None \<Rightarrow> Inr (None, Interpolate_t lowerTf upperTf fraction)
                    | Some ot \<Rightarrow>
                        (case interpolate lowerTime upperTime fraction of
                           Inl e \<Rightarrow> Inl e
                         | Inr t' \<Rightarrow>
                             Inr (Some (copyTime ot t'),
                                  Interpolate_t lowerTf upperTf fraction)))))"

text \<open>
  The interpolation fraction in nanoseconds: the share of the way from the lower to the upper
  time at which the query time lies, clamped to the unit interval.
\<close>

definition fractionOf :: "Time \<Rightarrow> Time \<Rightarrow> Time \<Rightarrow> real" where
  "fractionOf lowerTime upperTime time =
     max 0 (min 1 (real_of_int (toNanoSec time - toNanoSec lowerTime) /
                   real_of_int (toNanoSec upperTime - toNanoSec lowerTime)))"

text \<open>
  The walks up the parent links need not end (nothing in the source forbids a cycle of
  parents), so they are partial functions: \<open>None\<close> stands for a call that does not return.
  A returned value is the error thrown (\<open>Inl\<close>) or the boolean result with the content of
  the output argument after the call.
\<close>

partial_function (option) GetTransformMatrix_loop ::
  "heap \<Rightarrow> ref \<Rightarrow> ref \<Rightarrow> Time \<Rightarrow> Duration \<Rightarrow> ref \<Rightarrow> mat4 \<Rightarrow> (error + bool \<times> mat4) option" where
  "GetTransformMatrix_loop h parentFrame childFrame time maxDelta curFrame out =
     (if curFrame \<noteq> parentFrame then
        (case findClosestTransforms (h curFrame) time maxDelta of
           Inl e \<Rightarrow> Some (Inl e)
         | Inr None \<Rightarrow> Some (Inr (False, out))
         | Inr (Some bracket) \<Rightarrow>
             (case Interpolate None (fst bracket) (snd bracket) time of
                Inl e \<Rightarrow> Some (Inl e)
              | Inr r \<Rightarrow>
                  (case parent (h curFrame) of
                     None \<Rightarrow>
                       Some (Inl (NotAParent (id_frame (h parentFrame)) (id_frame (h childFrame))))
                   | Some p \<Rightarrow>
                       GetTransformMatrix_loop h parentFrame childFrame time maxDelta p
                         (multiply (matrix_t (snd r)) out))))
      else Some (Inr (True, out)))"

text \<open>
  The walk of \<open>GetTransformMatrix\<close> from outside: \<open>hop_ok\<close> says that a frame's lookup
  finds a bracket, and \<open>hops h parentFrame time maxDelta n c\<close> is the frame the walk is at
  after \<open>n\<close> passes through the loop body from \<open>c\<close>, when each of those frames differs from
  \<open>parentFrame\<close>, has a bracket and has a parent.
\<close>

definition hop_ok :: "CoordinateFrame \<Rightarrow> Time \<Rightarrow> Duration \<Rightarrow> bool" where
  "hop_ok f time maxDelta =
     (case findClosestTransforms f time maxDelta of
        Inl e \<Rightarrow> False
      | Inr None \<Rightarrow> False
      | Inr (Some bracket) \<Rightarrow> True)"

fun hops :: "heap \<Rightarrow> ref \<Rightarrow> Time \<Rightarrow> Duration \<Rightarrow> nat \<Rightarrow> ref \<Rightarrow> ref option" where
  "hops h parentFrame time maxDelta 0 c = Some c"
| "hops h parentFrame time maxDelta (Suc n) c =
     (if c \<noteq> parentFrame \<and> hop_ok (h c) time maxDelta
      then (case parent (h c) of
              None \<Rightarrow> None
            | Some p \<Rightarrow> hops h parentFrame time maxDelta n p)
      else None)"

definition GetTransformMatrix ::
  "heap \<Rightarrow> ref \<Rightarrow> ref \<Rightarrow> Time \<Rightarrow> Duration \<Rightarrow> (error + bool \<times> mat4) option" where
  "GetTransformMatrix h parentFrame childFrame time maxDelta =
     GetTransformMatrix_loop h parentFrame childFrame time maxDelta childFrame mat4Identity"

text \<open>
  \<open>invertRigid\<close> is the body of the \<open>invert\<close> branch of \<open>Apply\<close>: it keeps the translation
  aside, clears it, transposes the matrix in place and stores the negated translation.
\<close>

definition invertRigid :: "mat4 \<Rightarrow> mat4" where
  "invertRigid tempMatrix =
     (let x = m12 tempMatrix; y = m13 tempMatrix; z = m14 tempMatrix;
          rot = setTranslation tempMatrix 0 0 0;
          rot' = transpose_mat4 rot
      in setTranslation rot' (- x) (- y) (- z))"

definition Apply ::
  "heap \<Rightarrow> Pose \<Rightarrow> Pose \<Rightarrow> ref \<Rightarrow> ref \<Rightarrow> bool \<Rightarrow> Time \<Rightarrow> Duration \<Rightarrow>
   (error + bool \<times> Pose) option" where
  "Apply h out input parent' child invert time maxDelta =
     (case GetTransformMatrix h parent' child time maxDelta of
        None \<Rightarrow> None
      | Some (Inl e) \<Rightarrow> Some (Inl e)
      | Some (Inr (ok, tempMatrix)) \<Rightarrow>
          if \<not> ok then Some (Inr (False, out))
          else
            (let tempMatrix1 = (if invert then invertRigid tempMatrix else tempMatrix);
                 tempTransform = setPose input;
                 tempMatrix2 = multiply tempMatrix1 (matrix_t tempTransform);
                 tempTransform' = setMatrix tempMatrix2
             in Some (Inr (True, toPose tempTransform' out))))"

partial_function (option) apply_loop ::
  "heap \<Rightarrow> ref \<Rightarrow> Pose \<Rightarrow> Pose \<Rightarrow> ref \<Rightarrow> Time \<Rightarrow> Duration \<Rightarrow> ref option \<Rightarrow>
   (error + bool \<times> Pose) option" where
  "apply_loop h this out input srcFrame time maxDelta curSrcFrame =
     (case curSrcFrame of
        None \<Rightarrow> Some (Inr (False, out))
      | Some c \<Rightarrow>
          (case findAncestor h this (id_frame (h c)) of
             None \<Rightarrow> None
           | Some None \<Rightarrow> apply_loop h this out input srcFrame time maxDelta (parent (h c))
           | Some (Some commonParent) \<Rightarrow>
               (case Apply h out input commonParent srcFrame False time maxDelta of
                  None \<Rightarrow> None
                | Some (Inl e) \<Rightarrow> Some (Inl e)
                | Some (Inr (ok, out1)) \<Rightarrow>
                    if \<not> ok then Some (Inr (False, out1))
                    else Apply h out1 out1 commonParent this True time maxDelta)))"

definition apply_frame ::
  "heap \<Rightarrow> ref \<Rightarrow> Pose \<Rightarrow> Pose \<Rightarrow> ref \<Rightarrow> Time \<Rightarrow> Duration \<Rightarrow> (error + bool \<times> Pose) option" where
  "apply_frame h this out input srcFrame time maxDelta =
     (if srcFrame = this
      then Some (Inr (True, out\<lparr>position := position input, orientation := orientation input\<rparr>))
      else
        (case findAncestor h srcFrame (id_frame (h this)) of
           None \<Rightarrow> None
         | Some (Some a) \<Rightarrow> Apply h out input this srcFrame False time maxDelta
         | Some None \<Rightarrow>
             (case findAncestor h this (id_frame (h srcFrame)) of
                None \<Rightarrow> None
              | Some (Some a) \<Rightarrow> Apply h out input srcFrame this True time maxDelta
              | Some None \<Rightarrow>
                  apply_loop h this out input srcFrame time maxDelta (Some srcFrame))))"

section \<open>The registry of frames\<close>

text \<open>
  Modelled from the spec: the registry (TransformTree.ts) is not part of the sources at
  hand. Per the spec it owns the frames by id, \<open>getOrCreateFrame\<close> returns the existing
  frame or creates a parentless one with the default retention window,
  \<open>addTransform(childId, parentId, time, transform)\<close> routes an edge to the child's frame
  (setting its parent, which fails on a different established parent before anything is
  stored), and \<open>apply(out, in, dstId, srcId, time, maxDelta)\<close> resolves both ids and composes
  on the destination frame, with no result when an id is unknown.
\<close>

record TransformTree =
  frames :: "string \<rightharpoonup> ref"
  store :: heap
  fresh :: ref

definition TransformTree_new :: TransformTree where
  "TransformTree_new =
     \<lparr>frames = Map.empty,
      store = (\<lambda>r. CoordinateFrame_new [] None DEFAULT_MAX_STORAGE_TIME),
      fresh = 0\<rparr>"

definition getOrCreateFrame :: "TransformTree \<Rightarrow> string \<Rightarrow> ref \<times> TransformTree" where
  "getOrCreateFrame tree i =
     (case frames tree i of
        Some r \<Rightarrow> (r, tree)
      | None \<Rightarrow>
          (fresh tree,
           tree\<lparr>frames := (frames tree)(i \<mapsto> fresh tree),
                store := (store tree)
                  (fresh tree := CoordinateFrame_new i None DEFAULT_MAX_STORAGE_TIME),
                fresh := Suc (fresh tree)\<rparr>))"

definition addTransform_tree ::
  "TransformTree \<Rightarrow> string \<Rightarrow> string \<Rightarrow> Time \<Rightarrow> Transform \<Rightarrow> error + TransformTree" where
  "addTransform_tree tree frameId parentFrameId time transform =
     (let (frame, tree1) = getOrCreateFrame tree frameId;
          (parentFrame, tree2) = getOrCreateFrame tree1 parentFrameId
      in case setParent (store tree2) frame parentFrame of
           (Some e, h) \<Rightarrow> Inl e
         | (None, h) \<Rightarrow>
             (case addTransform (h frame) time transform of
                Inl e \<Rightarrow> Inl e
              | Inr f \<Rightarrow> Inr (tree2\<lparr>store := h(frame := f)\<rparr>)))"

definition apply_tree ::
  "TransformTree \<Rightarrow> Pose \<Rightarrow> Pose \<Rightarrow> string \<Rightarrow> string \<Rightarrow> Time \<Rightarrow> Duration \<Rightarrow>
   (error + bool \<times> Pose) option" where
  "apply_tree tree out input frameId srcFrameId time maxDelta =
     (case frames tree frameId of
        None \<Rightarrow> Some (Inr (False, out))
      | Some frame \<Rightarrow>
          (case frames tree srcFrameId of
             None \<Rightarrow> Some (Inr (False, out))
           | Some srcFrame \<Rightarrow> apply_frame (store tree) frame out input srcFrame time maxDelta))"

section \<open>Fixtures\<close>

text \<open>
  The values of the test fixture: time zero, the identity pose, the default \<open>maxDelta\<close> of
  \<open>apply\<close> (one second), and the tree of the point-in-time test. The test builds the edges
  base_link to odom and odom to map at time zero with identity transforms and then changes
  the two stored transform objects in place; the history holds those objects, so the change
  is the same history with the new values at time zero, which is what inserting again at the
  same timestamp produces.
\<close>

definition TIME_ZERO :: Time where
  "TIME_ZERO = \<lparr>sec = 0, nsec = 0\<rparr>"

definition emptyPose :: Pose where
  "emptyPose = \<lparr>position = Vec3 0 0 0, orientation = Quat 0 0 0 1\<rparr>"

definition ONE_SECOND :: Duration where
  "ONE_SECOND = \<lparr>sec = 1, nsec = 0\<rparr>"

fun addTransforms_tree ::
  "TransformTree \<Rightarrow> (string \<times> string \<times> Time \<times> Transform) list \<Rightarrow> error + TransformTree" where
  "addTransforms_tree tree [] = Inr tree"
| "addTransforms_tree tree ((frameId, parentFrameId, time, transform) # rest) =
     (case addTransform_tree tree frameId parentFrameId time transform of
        Inl e \<Rightarrow> Inl e
      | Inr tree' \<Rightarrow> addTransforms_tree tree' rest)"

definition fixture_edges :: "(string \<times> string \<times> Time \<times> Transform) list" where
  "fixture_edges =
     [(''base_link'', ''odom'', TIME_ZERO, setPositionRotation (Vec3 0 0 0) (Quat 0 0 0 1)),
      (''odom'', ''map'', TIME_ZERO, setPositionRotation (Vec3 0 0 0) (Quat 0 0 0 1)),
      (''base_link'', ''odom'', TIME_ZERO, setPositionRotation (Vec3 1 2 3) (Quat 0 0 0 1)),
      (''odom'', ''map'', TIME_ZERO, setPositionRotation (Vec3 10 20 30) (Quat 0 0 1 0))]"

definition fixture_store :: heap where
  "fixture_store =
     (\<lambda>r. CoordinateFrame_new [] None DEFAULT_MAX_STORAGE_TIME)
       (0 := \<lparr>id_frame = ''base_link'', maxStorageTime = DEFAULT_MAX_STORAGE_TIME,
              parent = Some 1,
              transforms =
                [(TIME_ZERO, setPositionRotation (Vec3 1 2 3) (Quat 0 0 0 1))]\<rparr>,
        1 := \<lparr>id_frame = ''odom'', maxStorageTime = DEFAULT_MAX_STORAGE_TIME,
              parent = Some 2,
              transforms =
                [(TIME_ZERO, setPositionRotation (Vec3 10 20 30) (Quat 0 0 1 0))]\<rparr>,
        2 := \<lparr>id_frame = ''map'', maxStorageTime = DEFAULT_MAX_STORAGE_TIME,
              parent = None, transforms = []\<rparr>)"

definition fixture_tree :: TransformTree where
  "fixture_tree =
     \<lparr>frames = [''base_link'' \<mapsto> 0, ''odom'' \<mapsto> 1, ''map'' \<mapsto> 2],
      store = fixture_store, fresh = 3\<rparr>"

text \<open>
  A frame with the default retention window of ten seconds and entries at 0 and 5 seconds,
  and a frame whose only entry is at half a second.
\<close>

definition retention_frame :: CoordinateFrame where
  "retention_frame =
     \<lparr>id_frame = ''base_link'', maxStorageTime = DEFAULT_MAX_STORAGE_TIME, parent = None,
      transforms = [(TIME_ZERO, Identity), (\<lparr>sec = 5, nsec = 0\<rparr>, Identity)]\<rparr>"

definition HALF_SECOND :: Time where
  "HALF_SECOND = \<lparr>sec = 0, nsec = 500000000\<rparr>"

definition late_frame :: CoordinateFrame where
  "late_frame =
     \<lparr>id_frame = ''base_link'', maxStorageTime = DEFAULT_MAX_STORAGE_TIME, parent = None,
      transforms = [(HALF_SECOND, Identity)]\<rparr>"

text \<open>
  Two history entries two seconds apart.
\<close>

definition interp_lower :: TimeAndTransform where
  "interp_lower = (TIME_ZERO, setPositionRotation (Vec3 0 0 0) (Quat 0 0 0 1))"

definition interp_upper :: TimeAndTransform where
  "interp_upper = (\<lparr>sec = 2, nsec = 0\<rparr>, setPositionRotation (Vec3 2 4 6) (Quat 0 0 0 1))"

text \<open>
  A store whose frame 0 has a history and no parent.
\<close>

definition orphan_store :: heap where
  "orphan_store =
     (\<lambda>r. CoordinateFrame_new [] None DEFAULT_MAX_STORAGE_TIME) (0 := retention_frame)"

text \<open>
  A tree with two branches under one root: the edge left to root has a transform at time
  zero, the edge right to root has one at 100 seconds only.
\<close>

definition branch_edges :: "(string \<times> string \<times> Time \<times> Transform) list" where
  "branch_edges =
     [(''left'', ''root'', TIME_ZERO, setPositionRotation (Vec3 1 2 3) (Quat 0 0 0 1)),
      (''right'', ''root'', \<lparr>sec = 100, nsec = 0\<rparr>,
       setPositionRotation (Vec3 4 5 6) (Quat 0 0 0 1))]"

definition branch_store :: heap where
  "branch_store =
     (\<lambda>r. CoordinateFrame_new [] None DEFAULT_MAX_STORAGE_TIME)
       (0 := \<lparr>id_frame = ''left'', maxStorageTime = DEFAULT_MAX_STORAGE_TIME,
              parent = Some 1,
              transforms =
                [(TIME_ZERO, setPositionRotation (Vec3 1 2 3) (Quat 0 0 0 1))]\<rparr>,
        1 := \<lparr>id_frame = ''root'', maxStorageTime = DEFAULT_MAX_STORAGE_TIME,
              parent = None, transforms = []\<rparr>,
        2 := \<lparr>id_frame = ''right'', maxStorageTime = DEFAULT_MAX_STORAGE_TIME,
              parent = Some 1,
              transforms =
                [(\<lparr>sec = 100, nsec = 0\<rparr>,
                  setPositionRotation (Vec3 4 5 6) (Quat 0 0 0 1))]\<rparr>)"

definition branch_tree :: TransformTree where
  "branch_tree =
     \<lparr>frames = [''left'' \<mapsto> 0, ''root'' \<mapsto> 1, ''right'' \<mapsto> 2],
      store = branch_store, fresh = 3\<rparr>"

section \<open>Helper lemmas on time arithmetic\<close>

lemma fixTime_nsec_nonneg:
  "0 \<le> r \<Longrightarrow> \<bar>if sgn r = - 1 then 1000000000 + r else r\<bar> = (r::int)"
  by (auto simp: sgn_if)

lemma fixTime_nsec_neg:
  "0 < m \<Longrightarrow> m < 1000000000 \<Longrightarrow>
   \<bar>if sgn (- m) = - 1 then 1000000000 + (- m) else - m\<bar> = 1000000000 - (m::int)"
  by (auto simp: sgn_if)

lemma fixTime_nsec_value:
  "\<bar>if sgn (jsrem a 1000000000) = - 1 then 1000000000 + jsrem a 1000000000
     else jsrem a 1000000000\<bar> = a mod 1000000000"
proof (cases "0 \<le> a")
  case True
  then have r: "jsrem a 1000000000 = a mod 1000000000"
    by (cases "a = 0") (simp_all add: jsrem_def)
  have "0 \<le> a mod 1000000000" by simp
  then show ?thesis unfolding r by (rule fixTime_nsec_nonneg)
next
  case False
  then have neg: "a < 0" by simp
  then have r: "jsrem a 1000000000 = - ((- a) mod 1000000000)"
    by (simp add: jsrem_def)
  show ?thesis
  proof (cases "(- a) mod 1000000000 = 0")
    case True
    then have "a mod 1000000000 = 0"
      by (metis dvd_minus_iff mod_eq_0_iff_dvd)
    with True r show ?thesis by simp
  next
    case nz: False
    have pos: "0 < (- a) mod 1000000000"
      using nz by (simp add: less_le)
    have lt: "(- a) mod 1000000000 < 1000000000" by simp
    have m: "a mod 1000000000 = 1000000000 - (- a) mod 1000000000"
      using nz by (metis minus_minus zmod_zminus1_eq_if)
    show ?thesis unfolding r m by (rule fixTime_nsec_neg [OF pos lt])
  qed
qed

lemma fixTime_allowNegative:
  "fixTime t True = Inr \<lparr>sec = sec t + nsec t div 1000000000, nsec = nsec t mod 1000000000\<rparr>"
  by (simp add: fixTime_def Let_def fixTime_nsec_value del: abs_if)

lemma subtract_eq:
  "subtract a b =
     Inr \<lparr>sec = sec a - sec b + (nsec a - nsec b) div 1000000000,
          nsec = (nsec a - nsec b) mod 1000000000\<rparr>"
  by (simp add: subtract_def fixTime_allowNegative)

lemma subtract_nanos:
  "subtract a b =
     Inr \<lparr>sec = (toNanoSec a - toNanoSec b) div 1000000000,
          nsec = (toNanoSec a - toNanoSec b) mod 1000000000\<rparr>"
proof -
  have n: "toNanoSec a - toNanoSec b = (nsec a - nsec b) + (sec a - sec b) * 1000000000"
    by (simp add: toNanoSec_def algebra_simps)
  have d: "(x + k * 1000000000) div 1000000000 = k + x div 1000000000" for x k :: int
    by simp
  have m: "(x + k * 1000000000) mod 1000000000 = x mod 1000000000" for x k :: int
    by simp
  show ?thesis by (simp only: subtract_eq n d m)
qed

lemma toSec_div_mod:
  "toSec \<lparr>sec = n div 1000000000, nsec = n mod 1000000000\<rparr> = real_of_int n / 1000000000"
proof -
  have "real_of_int n = real_of_int (n div 1000000000 * 1000000000 + n mod 1000000000)"
    by simp
  also have "\<dots> = real_of_int (n div 1000000000) * 1000000000 + real_of_int (n mod 1000000000)"
    by (simp only: of_int_add of_int_mult of_int_numeral)
  finally show ?thesis by (simp add: toSec_def field_simps)
qed

lemma percentOf_nanos:
  "percentOf start end target =
     Inr (real_of_int (toNanoSec target - toNanoSec start) /
          real_of_int (toNanoSec end - toNanoSec start))"
proof -
  have c: "(x / 1000000000) / (y / 1000000000) = x / y" for x y :: real
    by simp
  show ?thesis
    by (simp only: percentOf_def subtract_nanos sum.case toSec_div_mod c)
qed

lemma wf_time_nanos_inj:
  assumes "wf_time a" and "wf_time b" and "toNanoSec a = toNanoSec b"
  shows "areEqual a b"
proof -
  have "sec a = sec b"
    using assms by (auto simp: wf_time_def toNanoSec_def)
  then show ?thesis using assms by (simp add: areEqual_def toNanoSec_def)
qed


lemma floor_div_billion: "\<lfloor>real_of_int y / 1000000000\<rfloor> = y div 1000000000"
  using floor_divide_of_int_eq [of y 1000000000] by simp

lemma trunc_jsrem:
  "trunc (real_of_int x / 1000000000) * 1000000000 + jsrem x 1000000000 = x"
proof (cases "0 \<le> x")
  case True
  then have "trunc (real_of_int x / 1000000000) = x div 1000000000"
    by (simp add: trunc_def floor_div_billion)
  moreover have "jsrem x 1000000000 = x mod 1000000000"
    using True by (cases "x = 0") (simp_all add: jsrem_def)
  ultimately show ?thesis by simp
next
  case False
  then have neg: "x < 0" by simp
  have "real_of_int x / 1000000000 = - (real_of_int (- x) / 1000000000)" by simp
  then have "\<lceil>real_of_int x / 1000000000\<rceil> = - \<lfloor>real_of_int (- x) / 1000000000\<rfloor>"
    by (simp only: ceiling_minus)
  also have "\<dots> = - ((- x) div 1000000000)"
    by (simp only: floor_div_billion)
  finally have "trunc (real_of_int x / 1000000000) = - ((- x) div 1000000000)"
    using neg by (simp add: trunc_def divide_neg_pos)
  moreover have "jsrem x 1000000000 = - ((- x) mod 1000000000)"
    using neg by (simp add: jsrem_def)
  moreover have "- x = (- x) div 1000000000 * 1000000000 + (- x) mod 1000000000" by simp
  ultimately show ?thesis by linarith
qed

lemma fromSec_nanos: "toNanoSec (fromSec v) = \<lfloor>v * 1000000000 + 1 / 2\<rfloor>"
proof -
  define s where "s = trunc v"
  define n where "n = \<lfloor>(v - real_of_int s) * 1000000000 + 1 / 2\<rfloor>"
  have "toNanoSec (fromSec v) =
        s * 1000000000 + (trunc (real_of_int n / 1000000000) * 1000000000 + jsrem n 1000000000)"
    by (simp add: fromSec_def toNanoSec_def Let_def s_def n_def algebra_simps)
  also have "\<dots> = s * 1000000000 + n" by (simp only: trunc_jsrem)
  also have "\<dots> = \<lfloor>v * 1000000000 + 1 / 2\<rfloor>"
  proof -
    have "(v - real_of_int s) * 1000000000 + 1 / 2 =
          (v * 1000000000 + 1 / 2) - real_of_int (s * 1000000000)"
      by (simp add: algebra_simps)
    then have "n = \<lfloor>v * 1000000000 + 1 / 2\<rfloor> - s * 1000000000"
      unfolding n_def by (simp only: floor_diff_of_int)
    then show ?thesis by simp
  qed
  finally show ?thesis .
qed

lemma fixTime_nanos: "fixTime t allowNegative = Inr t' \<Longrightarrow> toNanoSec t' = toNanoSec t \<and> wf_time t'"
  by (auto simp: fixTime_def Let_def fixTime_nsec_value toNanoSec_def wf_time_def
      simp del: abs_if split: if_splits)

lemma interpolate_nanos:
  assumes "interpolate start end fraction = Inr t'"
  shows "toNanoSec t' = toNanoSec start +
           \<lfloor>fraction * real_of_int (toNanoSec end - toNanoSec start) + 1 / 2\<rfloor>
         \<and> wf_time t'"
proof -
  let ?d = "\<lparr>sec = (toNanoSec end - toNanoSec start) div 1000000000,
          nsec = (toNanoSec end - toNanoSec start) mod 1000000000\<rparr>"
  let ?v = "fraction * toSec ?d"
  from assms have a: "add start (fromSec ?v) = Inr t'"
    by (simp add: interpolate_def subtract_nanos)
  then have "toNanoSec t' = toNanoSec start + toNanoSec (fromSec ?v)" and "wf_time t'"
    using fixTime_nanos [of _ False t'] by (auto simp: add_def toNanoSec_def algebra_simps)
  moreover have "?v * 1000000000 = fraction * real_of_int (toNanoSec end - toNanoSec start)"
    by (simp add: toSec_div_mod)
  ultimately show ?thesis by (simp only: fromSec_nanos)
qed


lemma compare_le_nanos:
  assumes "wf_time a" and "wf_time b"
  shows "compare a b \<le> 0 \<longleftrightarrow> toNanoSec a \<le> toNanoSec b"
  using assms by (auto simp: compare_def Let_def wf_time_def toNanoSec_def)

lemma isDiffWithinDelta_nanos:
  assumes "wf_time delta"
  shows "isDiffWithinDelta timeA timeB delta =
     Inr ((let n = toNanoSec timeA - toNanoSec timeB
           in if 0 \<le> n then n else - n + 2 * (n mod 1000000000)) \<le> toNanoSec delta)"
proof -
  define n where "n = toNanoSec timeA - toNanoSec timeB"
  let ?diff = "\<lparr>sec = \<bar>n div 1000000000\<bar>, nsec = n mod 1000000000\<rparr>"
  have wf: "wf_time ?diff" by (simp add: wf_time_def)
  have eq: "n = (n div 1000000000) * 1000000000 + n mod 1000000000" by simp
  have "toNanoSec ?diff = (if 0 \<le> n then n else - n + 2 * (n mod 1000000000))"
  proof (cases "0 \<le> n")
    case True
    then have "0 \<le> n div 1000000000" by (simp add: pos_imp_zdiv_nonneg_iff)
    then show ?thesis using True by (simp add: toNanoSec_def)
  next
    case False
    then have "n div 1000000000 < 0" by (simp add: neg_imp_zdiv_neg_iff)
    then have "\<bar>n div 1000000000\<bar> * 1000000000 = - (n div 1000000000 * 1000000000)" by simp
    also have "\<dots> = - (n - n mod 1000000000)" using eq by linarith
    finally show ?thesis using False by (simp add: toNanoSec_def)
  qed
  moreover have "isDiffWithinDelta timeA timeB delta = Inr (compare ?diff delta \<le> 0)"
    by (simp add: isDiffWithinDelta_def subtract_nanos n_def)
  ultimately show ?thesis
    using compare_le_nanos [OF wf assms] by (simp add: n_def Let_def)
qed

section \<open>Interpolation\<close>

lemma copyTime_eq: "copyTime out time = time"
  by (cases out, cases time) (simp add: copyTime_def)

lemma copy_eq: "copy other = other"
  by (cases other) (simp add: copy_def)

lemma Interpolate_equal_times:
  "areEqual (fst lower) (fst upper) \<Longrightarrow>
   Interpolate outTime lower upper time =
     Inr (map_option (\<lambda>ot. fst upper) outTime, snd upper)"
  by (simp add: Interpolate_def Let_def copyTime_eq copy_eq)

lemma Interpolate_t_fields:
  "position_t (Interpolate_t a b t) = lerp (position_t a) (position_t b) t"
  "rotation_t (Interpolate_t a b t) = normalize (slerp (rotation_t a) (rotation_t b) t)"
  "matrix_t (Interpolate_t a b t) =
     fromRotationTranslation (rotation_t (Interpolate_t a b t)) (position_t (Interpolate_t a b t))"
  by (simp_all add: Interpolate_t_def setPositionRotation_def Let_def)

lemma Interpolate_distinct_times:
  assumes "\<not> areEqual (fst lower) (fst upper)"
  shows "Interpolate None lower upper time =
           Inr (None, Interpolate_t (snd lower) (snd upper)
                        (fractionOf (fst lower) (fst upper) time))"
    and "Interpolate (Some ot) lower upper time =
           (case interpolate (fst lower) (fst upper) (fractionOf (fst lower) (fst upper) time) of
              Inl e \<Rightarrow> Inl e
            | Inr t' \<Rightarrow>
                Inr (Some t', Interpolate_t (snd lower) (snd upper)
                                (fractionOf (fst lower) (fst upper) time)))"
  using assms
  by (simp_all add: Interpolate_def Let_def percentOf_nanos fractionOf_def copyTime_eq
      split: sum.splits)

section \<open>The ordered history and its retention\<close>

lemma compare_less_iff:
  "compare a b < 0 \<longleftrightarrow> sec a < sec b \<or> (sec a = sec b \<and> nsec a < nsec b)"
  by (auto simp: compare_def Let_def)

lemma compare_zero_iff: "compare a b = 0 \<longleftrightarrow> a = b"
  by (auto simp: compare_def Let_def)

lemma compare_trans: "compare a b < 0 \<Longrightarrow> compare b c < 0 \<Longrightarrow> compare a c < 0"
  by (auto simp: compare_less_iff)

lemma compare_antisym: "\<not> compare a b < 0 \<Longrightarrow> compare a b \<noteq> 0 \<Longrightarrow> compare b a < 0"
  by (auto simp: compare_def Let_def split: if_splits)

lemma set_avl_keys: "fst ` set (set_avl k v ts) = insert k (fst ` set ts)"
  by (induction ts) (auto simp: compare_zero_iff)

lemma set_avl_not_empty: "set_avl k v ts \<noteq> []"
  by (cases ts) auto

lemma sorted_keys_Cons:
  "sorted_keys (e # es) \<longleftrightarrow> (\<forall>x \<in> set es. compare (fst e) (fst x) < 0) \<and> sorted_keys es"
  by (simp add: sorted_keys_def)

lemma set_avl_sorted: "sorted_keys ts \<Longrightarrow> sorted_keys (set_avl k v ts)"
proof (induction ts)
  case Nil
  then show ?case by (simp add: sorted_keys_def)
next
  case (Cons e es)
  have tail: "sorted_keys es" and head: "\<forall>x \<in> set es. compare (fst e) (fst x) < 0"
    using Cons.prems by (simp_all add: sorted_keys_Cons)
  show ?case
  proof (cases "compare k (fst e) < 0")
    case True
    then have "\<forall>x \<in> set (e # es). compare k (fst x) < 0"
      using head by (auto intro: compare_trans)
    with True Cons.prems show ?thesis by (simp add: sorted_keys_Cons)
  next
    case False
    show ?thesis
    proof (cases "compare k (fst e) = 0")
      case True
      with False Cons.prems show ?thesis by (simp add: sorted_keys_Cons)
    next
      case ne: False
      have lt: "compare (fst e) k < 0" using False ne by (rule compare_antisym)
      have "compare (fst e) (fst x) < 0" if "x \<in> set (set_avl k v es)" for x
      proof -
        from that have "fst x \<in> insert k (fst ` set es)"
          using set_avl_keys [of k v es] by blast
        then show ?thesis using lt head by auto
      qed
      then have "\<forall>x \<in> set (set_avl k v es). compare (fst e) (fst x) < 0" by blast
      with False ne Cons.IH [OF tail] show ?thesis by (simp add: sorted_keys_Cons)
    qed
  qed
qed

lemma set_avl_member: "(k, v) \<in> set (set_avl k v ts)"
  by (induction ts) (auto simp: compare_zero_iff)

lemma set_avl_others:
  "e \<in> set ts \<Longrightarrow> fst e \<noteq> k \<Longrightarrow> e \<in> set (set_avl k v ts)"
  by (induction ts) (auto simp: compare_zero_iff)

lemma set_avl_subset: "set (set_avl k v ts) \<subseteq> insert (k, v) (set ts)"
  by (induction ts) (auto simp: compare_zero_iff)

lemma sorted_keys_unique:
  "sorted_keys ts \<Longrightarrow> a \<in> set ts \<Longrightarrow> b \<in> set ts \<Longrightarrow> fst a = fst b \<Longrightarrow> a = b"
proof (induction ts)
  case Nil
  then show ?case by simp
next
  case (Cons e es)
  have irrefl: "\<not> compare (fst x) (fst x) < 0" for x :: TimeAndTransform
    by (simp add: compare_def)
  from Cons show ?case
    by (auto simp: sorted_keys_Cons irrefl)
qed

lemma set_avl_length:
  "length (set_avl k v ts) = (if k \<in> fst ` set ts then length ts else Suc (length ts))"
  if "sorted_keys ts"
  using that
proof (induction ts)
  case Nil
  then show ?case by simp
next
  case (Cons e es)
  have tail: "sorted_keys es" and head: "\<forall>x \<in> set es. compare (fst e) (fst x) < 0"
    using Cons.prems by (simp_all add: sorted_keys_Cons)
  have irrefl: "\<not> compare x x < 0" for x by (simp add: compare_def)
  show ?case
  proof (cases "compare k (fst e) < 0")
    case True
    then have "k \<noteq> fst e" using irrefl by auto
    moreover have "k \<notin> fst ` set es"
    proof
      assume "k \<in> fst ` set es"
      then obtain x where "x \<in> set es" "fst x = k" by auto
      with head have "compare (fst e) k < 0" by auto
      with True have "compare k k < 0" using compare_trans by blast
      with irrefl show False by simp
    qed
    ultimately show ?thesis using True by simp
  next
    case False
    show ?thesis
    proof (cases "compare k (fst e) = 0")
      case True
      then show ?thesis using False by (simp add: compare_zero_iff)
    next
      case ne: False
      then have "k \<noteq> fst e" by (simp add: compare_zero_iff)
      with False ne Cons.IH [OF tail] show ?thesis by auto
    qed
  qed
qed

lemma addTransform_loop_split:
  "ts \<noteq> [] \<Longrightarrow>
   \<exists>dropped kept. addTransform_loop startTime ts = Inr kept \<and> ts = dropped @ kept
     \<and> (\<forall>e \<in> set dropped. isLessThan (fst e) startTime)
     \<and> kept \<noteq> []
     \<and> (size_avl kept = 1 \<or> (\<exists>k. minKey kept = Some k \<and> \<not> isLessThan k startTime))"
proof (induction startTime ts rule: addTransform_loop.induct)
  case (1 startTime ts)
  from \<open>ts \<noteq> []\<close> obtain e es where ts: "ts = e # es" by (cases ts) auto
  show ?case
  proof (cases "1 < size_avl ts \<and> isLessThan (fst e) startTime")
    case True
    then have ne: "shift ts \<noteq> []" and sh: "shift ts = es"
      by (auto simp: ts shift_def size_avl_def)
    have mk: "minKey ts = Some (fst e)" by (simp add: ts minKey_def minEntry_def)
    from "1.IH" [OF _ mk _ ne] True
    obtain dropped kept where r: "addTransform_loop startTime (shift ts) = Inr kept"
        "shift ts = dropped @ kept" "\<forall>e \<in> set dropped. isLessThan (fst e) startTime"
        "kept \<noteq> []"
        "size_avl kept = 1 \<or> (\<exists>k. minKey kept = Some k \<and> \<not> isLessThan k startTime)"
      by auto
    have "addTransform_loop startTime ts = Inr kept"
      using True mk r(1) by (subst addTransform_loop.simps) simp
    moreover have "ts = (e # dropped) @ kept" using r(2) sh ts by simp
    moreover have "\<forall>x \<in> set (e # dropped). isLessThan (fst x) startTime"
      using True r(3) by simp
    ultimately show ?thesis using r(4,5) by blast
  next
    case False
    have mk: "minKey ts = Some (fst e)" by (simp add: ts minKey_def minEntry_def)
    have "addTransform_loop startTime ts = Inr ts"
      using False mk by (subst addTransform_loop.simps) auto
    moreover have "size_avl ts = 1 \<or> (\<exists>k. minKey ts = Some k \<and> \<not> isLessThan k startTime)"
      using False mk by (auto simp: ts size_avl_def)
    ultimately show ?thesis using \<open>ts \<noteq> []\<close>
      by (intro exI [of _ "[]"] exI [of _ ts]) simp
  qed
qed


lemma maxKey_Some: "ts \<noteq> [] \<Longrightarrow> maxKey ts = Some (fst (last ts))"
  by (simp add: maxKey_def maxEntry_def)

lemma sorted_keys_suffix: "sorted_keys (dropped @ kept) \<Longrightarrow> sorted_keys kept"
  by (simp add: sorted_keys_def sorted_wrt_append)

lemma addTransform_unfold:
  "\<exists>newest startTime dropped kept.
     maxKey (set_avl time transform (transforms this)) = Some newest
     \<and> subtract newest (maxStorageTime this) = Inr startTime
     \<and> addTransform this time transform = Inr (this\<lparr>transforms := kept\<rparr>)
     \<and> set_avl time transform (transforms this) = dropped @ kept
     \<and> (\<forall>e \<in> set dropped. isLessThan (fst e) startTime)
     \<and> (size_avl kept = 1 \<or> (\<exists>k. minKey kept = Some k \<and> \<not> isLessThan k startTime))
     \<and> kept \<noteq> []"
proof -
  let ?ts = "set_avl time transform (transforms this)"
  have ne: "?ts \<noteq> []" by (rule set_avl_not_empty)
  obtain startTime where st: "subtract (fst (last ?ts)) (maxStorageTime this) = Inr startTime"
    by (simp add: subtract_eq)
  from addTransform_loop_split [OF ne, of startTime]
  obtain dropped kept where r: "addTransform_loop startTime ?ts = Inr kept"
      "?ts = dropped @ kept"
      "\<forall>e \<in> set dropped. isLessThan (fst e) startTime" "kept \<noteq> []"
      "size_avl kept = 1 \<or> (\<exists>k. minKey kept = Some k \<and> \<not> isLessThan k startTime)"
    by blast
  have "addTransform this time transform = Inr (this\<lparr>transforms := kept\<rparr>)"
    using r(1) st by (simp add: addTransform_def maxKey_Some [OF ne])
  with r(2-5) st maxKey_Some [OF ne] show ?thesis by blast
qed

lemma addTransform_sorted:
  assumes "sorted_keys (transforms this)"
  shows "\<exists>this'. addTransform this time transform = Inr this'
           \<and> sorted_keys (transforms this') \<and> transforms this' \<noteq> []"
proof -
  from addTransform_unfold [of time transform this]
  obtain dropped kept where r:
      "addTransform this time transform = Inr (this\<lparr>transforms := kept\<rparr>)"
      "set_avl time transform (transforms this) = dropped @ kept" "kept \<noteq> []"
    by blast
  have "sorted_keys (dropped @ kept)"
    using set_avl_sorted [OF assms, of time transform] r(2) by simp
  then have "sorted_keys kept" by (rule sorted_keys_suffix)
  with r(1,3) show ?thesis by simp
qed

lemma addTransforms_sorted:
  "sorted_keys (transforms this) \<Longrightarrow>
   \<exists>this'. addTransforms this calls = Inr this' \<and> sorted_keys (transforms this')"
proof (induction calls arbitrary: this)
  case Nil
  then show ?case by simp
next
  case (Cons c calls)
  obtain time transform where c: "c = (time, transform)" by (cases c)
  from addTransform_sorted [OF Cons.prems, of time transform]
  obtain this' where s: "addTransform this time transform = Inr this'"
      "sorted_keys (transforms this')"
    by blast
  from Cons.IH [OF s(2)] s(1) show ?case by (simp add: c)
qed

section \<open>The lookup of the closest transforms\<close>

lemma compare_le_iff:
  "compare a b \<le> 0 \<longleftrightarrow> sec a < sec b \<or> (sec a = sec b \<and> nsec a \<le> nsec b)"
  by (auto simp: compare_def Let_def)

lemma compare_gt_iff:
  "0 < compare a b \<longleftrightarrow> sec b < sec a \<or> (sec a = sec b \<and> nsec b < nsec a)"
  by (auto simp: compare_def Let_def)

lemma findLessThanOrEqual_split:
  assumes "sorted_keys (xs @ e # ys)" and "compare (fst e) k \<le> 0"
    and "\<forall>y \<in> set ys. 0 < compare (fst y) k"
  shows "findLessThanOrEqual (xs @ e # ys) k = Some e"
  using assms
proof (induction xs)
  case Nil
  then show ?case by (cases ys) auto
next
  case (Cons x xs)
  then have "compare (fst x) (fst e) < 0" and "sorted_keys (xs @ e # ys)"
    by (simp_all add: sorted_keys_Cons)
  with Cons have "compare (fst x) k \<le> 0" and "findLessThanOrEqual (xs @ e # ys) k = Some e"
    by (auto simp: compare_le_iff compare_less_iff)
  then show ?case by simp
qed

lemma findGreaterThan_split:
  assumes "\<forall>x \<in> set xs. \<not> 0 < compare (fst x) k" and "0 < compare (fst g) k"
  shows "findGreaterThan (xs @ g # ys) k = Some g"
  using assms by (induction xs) auto

lemma findLessThanOrEqual_before:
  "\<forall>e \<in> set ts. 0 < compare (fst e) k \<Longrightarrow> findLessThanOrEqual ts k = None"
  by (cases ts) auto

lemma findGreaterThan_after:
  "\<forall>e \<in> set ts. \<not> 0 < compare (fst e) k \<Longrightarrow> findGreaterThan ts k = None"
  by (induction ts) auto

lemma findClosestTransforms_empty:
  "transforms this = [] \<Longrightarrow> findClosestTransforms this time maxDelta = Inr None"
  by (simp add: findClosestTransforms_def size_avl_def)

lemma findClosestTransforms_single:
  "transforms this = [e] \<Longrightarrow>
   findClosestTransforms this time maxDelta = clampTo (Some e) time maxDelta"
  by (simp add: findClosestTransforms_def size_avl_def maxEntry_def)

lemma findClosestTransforms_before:
  assumes "1 < length (transforms this)"
    and "\<forall>e \<in> set (transforms this). 0 < compare (fst e) time"
  shows "findClosestTransforms this time maxDelta =
           clampTo (Some (hd (transforms this))) time maxDelta"
  using assms
  by (cases "transforms this")
     (auto simp: findClosestTransforms_def size_avl_def minEntry_def)

lemma findClosestTransforms_exact:
  assumes "sorted_keys (transforms this)" and "1 < length (transforms this)"
    and "e \<in> set (transforms this)" and "fst e = time"
  shows "findClosestTransforms this time maxDelta = Inr (Some (e, e))"
proof -
  from assms(3) obtain xs ys where ts: "transforms this = xs @ e # ys"
    by (meson split_list)
  have "\<forall>y \<in> set ys. compare (fst e) (fst y) < 0"
    using assms(1) by (simp add: ts sorted_keys_def sorted_wrt_append)
  then have "\<forall>y \<in> set ys. 0 < compare (fst y) time"
    using assms(4) by (auto simp: compare_less_iff compare_gt_iff)
  moreover have "compare (fst e) time \<le> 0" using assms(4) by (simp add: compare_def)
  ultimately have lte: "findLessThanOrEqual (transforms this) time = Some e"
    using assms(1) unfolding ts by (intro findLessThanOrEqual_split) auto
  note lte
  moreover have "transforms this \<noteq> []" using assms(2) by auto
  ultimately show ?thesis
    using assms(2,4) by (simp add: findClosestTransforms_def size_avl_def areEqual_def)
qed

lemma findClosestTransforms_after:
  assumes "sorted_keys (transforms this)" and "1 < length (transforms this)"
    and "\<forall>e \<in> set (transforms this). compare (fst e) time < 0"
  shows "findClosestTransforms this time maxDelta =
           clampTo (Some (last (transforms this))) time maxDelta"
proof -
  from assms(2) have ne: "transforms this \<noteq> []" by auto
  then obtain xs where ts: "transforms this = xs @ [last (transforms this)]"
    by (metis append_butlast_last_id)
  let ?l = "last (transforms this)"
  have l: "compare (fst ?l) time < 0" using assms(3) ne by simp
  have "findLessThanOrEqual (xs @ ?l # []) time = Some ?l"
    using assms(1) l ts by (intro findLessThanOrEqual_split) auto
  then have lte: "findLessThanOrEqual (transforms this) time = Some ?l" using ts by simp
  have gt: "findGreaterThan (transforms this) time = None"
    using assms(3) by (intro findGreaterThan_after) (auto simp: compare_less_iff compare_gt_iff)
  have "\<not> areEqual (fst ?l) time" using l by (auto simp: areEqual_def compare_def)
  then show ?thesis
    using assms(2) ne lte gt by (simp add: findClosestTransforms_def size_avl_def maxEntry_def)
qed

lemma findClosestTransforms_between:
  assumes "sorted_keys (transforms this)" and "transforms this = xs @ lo # hi # ys"
    and "compare (fst lo) time < 0" and "0 < compare (fst hi) time"
  shows "findClosestTransforms this time maxDelta = Inr (Some (lo, hi))"
proof -
  have s: "sorted_keys (xs @ lo # hi # ys)" using assms(1,2) by simp
  then have hi_ys: "\<forall>y \<in> set ys. compare (fst hi) (fst y) < 0"
    and xs_lo: "\<forall>x \<in> set xs. compare (fst x) (fst lo) < 0"
    by (auto simp: sorted_keys_def sorted_wrt_append)
  have above: "\<forall>y \<in> set (hi # ys). 0 < compare (fst y) time"
    using hi_ys assms(4) by (auto simp: compare_less_iff compare_gt_iff)
  have below: "\<forall>x \<in> set (xs @ [lo]). \<not> 0 < compare (fst x) time"
    using xs_lo assms(3) by (auto simp: compare_less_iff compare_gt_iff)
  have lte: "findLessThanOrEqual (transforms this) time = Some lo"
    unfolding assms(2) using s assms(3) above by (intro findLessThanOrEqual_split) auto
  have "findGreaterThan ((xs @ [lo]) @ hi # ys) time = Some hi"
    using below assms(4) by (rule findGreaterThan_split)
  then have gt: "findGreaterThan (transforms this) time = Some hi" using assms(2) by simp
  have "\<not> areEqual (fst lo) time" using assms(3) by (auto simp: areEqual_def compare_def)
  then show ?thesis
    using lte gt by (simp add: findClosestTransforms_def size_avl_def assms(2))
qed

lemma clampTo_at_or_after:
  assumes "wf_time maxDelta" and "toNanoSec (fst e) \<le> toNanoSec time"
  shows "clampTo (Some e) time maxDelta =
           Inr (if toNanoSec time - toNanoSec (fst e) \<le> toNanoSec maxDelta
                then Some (e, e) else None)"
  using assms by (simp add: clampTo_def isDiffWithinDelta_nanos [OF assms(1)] Let_def)

section \<open>The walk up the parent links\<close>

lemma Interpolate_None:
  "\<exists>tf. Interpolate None lower upper time = Inr (None, tf)"
  by (simp add: Interpolate_def Let_def percentOf_def subtract_eq)

lemma GetTransformMatrix_loop_hops:
  "hops h P time maxDelta n c = Some e \<Longrightarrow>
   \<exists>out'. GetTransformMatrix_loop h P C time maxDelta c out =
           GetTransformMatrix_loop h P C time maxDelta e out'"
proof (induction n arbitrary: c out)
  case 0
  then show ?case by auto
next
  case (Suc n)
  from Suc.prems obtain p where c: "c \<noteq> P" "hop_ok (h c) time maxDelta"
      "parent (h c) = Some p" "hops h P time maxDelta n p = Some e"
    by (auto split: if_splits option.splits)
  from c(2) obtain bracket where b: "findClosestTransforms (h c) time maxDelta = Inr (Some bracket)"
    by (auto simp: hop_ok_def split: sum.splits option.splits)
  obtain tf where i: "Interpolate None (fst bracket) (snd bracket) time = Inr (None, tf)"
    using Interpolate_None by blast
  have "GetTransformMatrix_loop h P C time maxDelta c out =
        GetTransformMatrix_loop h P C time maxDelta p (multiply (matrix_t tf) out)"
    using c(1,3) b i by (subst GetTransformMatrix_loop.simps) simp
  with Suc.IH [OF c(4)] show ?case by metis
qed

lemma GetTransformMatrix_loop_no_bracket:
  "e \<noteq> P \<Longrightarrow> findClosestTransforms (h e) time maxDelta = Inr None \<Longrightarrow>
   GetTransformMatrix_loop h P C time maxDelta e out = Some (Inr (False, out))"
  by (subst GetTransformMatrix_loop.simps) simp

lemma GetTransformMatrix_loop_no_parent:
  assumes "e \<noteq> P" and "hop_ok (h e) time maxDelta" and "parent (h e) = None"
  shows "GetTransformMatrix_loop h P C time maxDelta e out =
           Some (Inl (NotAParent (id_frame (h P)) (id_frame (h C))))"
proof -
  from assms(2) obtain bracket where
      b: "findClosestTransforms (h e) time maxDelta = Inr (Some bracket)"
    by (auto simp: hop_ok_def split: sum.splits option.splits)
  obtain tf where i: "Interpolate None (fst bracket) (snd bracket) time = Inr (None, tf)"
    using Interpolate_None by blast
  show ?thesis using assms(1,3) b i by (subst GetTransformMatrix_loop.simps) simp
qed

lemma isDiffWithinDelta_no_error: "\<exists>b. isDiffWithinDelta a b' d = Inr b"
  by (simp add: isDiffWithinDelta_def subtract_eq)

lemma clampTo_no_error: "\<exists>r. clampTo (Some e) time maxDelta = Inr r"
  using isDiffWithinDelta_no_error [of time "fst e" maxDelta]
  by (auto simp: clampTo_def)

lemma findClosestTransforms_no_error:
  "\<exists>r. findClosestTransforms this time maxDelta = Inr r"
proof (cases "transforms this")
  case Nil
  then show ?thesis by (simp add: findClosestTransforms_def size_avl_def)
next
  case (Cons e es)
  then have me: "maxEntry (transforms this) = Some (last (transforms this))"
    and mi: "minEntry (transforms this) = Some e"
    by (simp_all add: maxEntry_def minEntry_def)
  show ?thesis
    using clampTo_no_error [of "last (transforms this)" time maxDelta]
      clampTo_no_error [of e time maxDelta]
    by (auto simp: findClosestTransforms_def me mi split: option.splits)
qed

lemma hop_ok_iff:
  "hop_ok f time maxDelta \<longleftrightarrow> findClosestTransforms f time maxDelta \<noteq> Inr None"
  using findClosestTransforms_no_error [of f time maxDelta]
  by (auto simp: hop_ok_def split: sum.splits option.splits)



lemma GetTransformMatrix_loop_result:
  assumes "GetTransformMatrix_loop h P C time maxDelta c out = Some y"
  shows "case y of
           Inl e \<Rightarrow>
             e = NotAParent (id_frame (h P)) (id_frame (h C)) \<and>
             (\<exists>n E. hops h P time maxDelta n c = Some E \<and> E \<noteq> P \<and>
                    hop_ok (h E) time maxDelta \<and> parent (h E) = None)
         | Inr r \<Rightarrow>
             if fst r then (\<exists>n. hops h P time maxDelta n c = Some P)
             else (\<exists>n E. hops h P time maxDelta n c = Some E \<and> E \<noteq> P \<and>
                         findClosestTransforms (h E) time maxDelta = Inr None)"
  using assms
proof (induction rule: GetTransformMatrix_loop.raw_induct [rotated, consumes 1, case_names step])
  case (step loop h P C time maxDelta c out y)
  show ?case
  proof (cases "c = P")
    case True
    with step.hyps have "y = Inr (True, out)" by simp
    moreover have "\<exists>n. hops h P time maxDelta n c = Some P"
      using True by (intro exI [of _ 0]) simp
    ultimately show ?thesis by simp
  next
    case ne: False
    obtain r where f: "findClosestTransforms (h c) time maxDelta = Inr r"
      using findClosestTransforms_no_error by blast
    show ?thesis
    proof (cases r)
      case None
      with step.hyps ne f have "y = Inr (False, out)" by simp
      moreover have "\<exists>n E. hops h P time maxDelta n c = Some E \<and> E \<noteq> P \<and>
                         findClosestTransforms (h E) time maxDelta = Inr None"
        using ne f None by (intro exI [of _ 0] exI [of _ c]) simp
      ultimately show ?thesis by simp
    next
      case (Some bracket)
      have ok: "hop_ok (h c) time maxDelta" using f Some by (simp add: hop_ok_def)
      obtain tf where i: "Interpolate None (fst bracket) (snd bracket) time = Inr (None, tf)"
        using Interpolate_None by blast
      show ?thesis
      proof (cases "parent (h c)")
        case None
        with step.hyps ne f Some i
        have "y = Inl (NotAParent (id_frame (h P)) (id_frame (h C)))" by simp
        moreover have "\<exists>n E. hops h P time maxDelta n c = Some E \<and> E \<noteq> P \<and>
                    hop_ok (h E) time maxDelta \<and> parent (h E) = None"
          using ne ok None by (intro exI [of _ 0] exI [of _ c]) simp
        ultimately show ?thesis by simp
      next
        case (Some p)
        with step.hyps ne f \<open>r = Some bracket\<close> i
        have "loop h P C time maxDelta p (multiply (matrix_t tf) out) = Some y" by simp
        from step.IH [OF this]
        have ih: "case y of
           Inl e \<Rightarrow>
             e = NotAParent (id_frame (h P)) (id_frame (h C)) \<and>
             (\<exists>n E. hops h P time maxDelta n p = Some E \<and> E \<noteq> P \<and>
                    hop_ok (h E) time maxDelta \<and> parent (h E) = None)
         | Inr r \<Rightarrow>
             if fst r then (\<exists>n. hops h P time maxDelta n p = Some P)
             else (\<exists>n E. hops h P time maxDelta n p = Some E \<and> E \<noteq> P \<and>
                         findClosestTransforms (h E) time maxDelta = Inr None)" .
        have step: "hops h P time maxDelta (Suc n) c = hops h P time maxDelta n p" for n
          using ne ok Some by simp
        show ?thesis
        proof (cases y)
          case (Inl e)
          with ih obtain n E where "e = NotAParent (id_frame (h P)) (id_frame (h C))"
              "hops h P time maxDelta n p = Some E" "E \<noteq> P"
              "hop_ok (h E) time maxDelta" "parent (h E) = None"
            by auto
          moreover from this have "hops h P time maxDelta (Suc n) c = Some E"
            by (simp only: step)
          ultimately show ?thesis using Inl by (simp del: hops.simps) blast
        next
          case (Inr r')
          show ?thesis
          proof (cases "fst r'")
            case True
            with ih Inr obtain n where "hops h P time maxDelta n p = Some P" by auto
            then have "hops h P time maxDelta (Suc n) c = Some P" by (simp only: step)
            then show ?thesis using Inr True by (simp del: hops.simps) blast
          next
            case False
            with ih Inr obtain n E where "hops h P time maxDelta n p = Some E" "E \<noteq> P"
                "findClosestTransforms (h E) time maxDelta = Inr None"
              by auto
            moreover from this have "hops h P time maxDelta (Suc n) c = Some E"
              by (simp only: step)
            ultimately show ?thesis using Inr False by (simp del: hops.simps) blast
          qed
        qed
      qed
    qed
  qed
qed


lemma GetTransformMatrix_loop_at_parent:
  "GetTransformMatrix_loop h P C time maxDelta P out = Some (Inr (True, out))"
  by (subst GetTransformMatrix_loop.simps) simp

section \<open>The fixture tree\<close>

lemma fixture_tree_built:
  "addTransforms_tree TransformTree_new fixture_edges = Inr fixture_tree"
  by (simp add: fixture_edges_def TransformTree_new_def addTransform_tree_def
      getOrCreateFrame_def setParent_def CoordinateFrame_new_def addTransform_def
      addTransform_loop.simps maxKey_def
      maxEntry_def subtract_eq DEFAULT_MAX_STORAGE_TIME_def size_avl_def fixture_tree_def
      fixture_store_def compare_def TIME_ZERO_def fun_eq_iff numeral_2_eq_2 numeral_3_eq_3)

lemma branch_tree_built:
  "addTransforms_tree TransformTree_new branch_edges = Inr branch_tree"
  by (simp add: branch_edges_def TransformTree_new_def addTransform_tree_def
      getOrCreateFrame_def setParent_def CoordinateFrame_new_def addTransform_def
      addTransform_loop.simps maxKey_def
      maxEntry_def subtract_eq DEFAULT_MAX_STORAGE_TIME_def size_avl_def branch_tree_def
      branch_store_def compare_def TIME_ZERO_def fun_eq_iff numeral_2_eq_2 numeral_3_eq_3)

text \<open>
  The point-in-time test expects that base_link, whose parent is odom, cannot be given the
  parent map.
\<close>

lemma fixture_reparent_rejected:
  "addTransform_tree fixture_tree ''base_link'' ''map'' TIME_ZERO transform =
     Inl (CannotReparent ''base_link'' ''odom'' ''map'')"
  by (simp add: addTransform_tree_def getOrCreateFrame_def setParent_def fixture_tree_def
      fixture_store_def)

lemmas eval_defs =
  GetTransformMatrix_def GetTransformMatrix_loop.simps findClosestTransforms_def size_avl_def
  clampTo_def maxEntry_def minEntry_def isDiffWithinDelta_def subtract_eq compare_def
  TIME_ZERO_def ONE_SECOND_def Interpolate_def areEqual_def copy_def setPositionRotation_def
  mat4Identity_def Let_def apply_tree_def apply_frame_def apply_loop.simps findAncestor_def
  findAncestor_loop.simps Apply_def setPose_def setMatrix_def toPose_def getTranslation_def
  getRotation_def getScaling_def invertRigid_def setTranslation_def emptyPose_def

text \<open>
  In the fixture store frame 0 is base_link, frame 1 is odom and frame 2 is map; in the
  branch store frame 0 is left, frame 1 is root and frame 2 is right.
\<close>

lemma fixture_map_from_base_link:
  "apply_frame fixture_store 2 emptyPose emptyPose 0 TIME_ZERO ONE_SECOND =
     Some (Inr (True, \<lparr>position = Vec3 9 18 33, orientation = Quat 0 0 1 0\<rparr>))"
  by (simp add: eval_defs fixture_store_def)

lemma fixture_base_link_from_map:
  "apply_frame fixture_store 0 emptyPose emptyPose 2 TIME_ZERO ONE_SECOND =
     Some (Inr (True, \<lparr>position = Vec3 (- 9) (- 18) (- 33), orientation = Quat 0 0 1 0\<rparr>))"
  by (simp add: eval_defs fixture_store_def)

lemma fixture_back_to_base_link:
  "apply_frame fixture_store 0 emptyPose
     \<lparr>position = Vec3 9 18 33, orientation = Quat 0 0 1 0\<rparr> 2 TIME_ZERO ONE_SECOND =
     Some (Inr (True, \<lparr>position = Vec3 (- 18) (- 36) 0, orientation = Quat 0 0 0 1\<rparr>))"
  by (simp add: eval_defs fixture_store_def)

text \<open>
  The remaining assertions of the point-in-time test, with the pose at (100,200,300) turned
  half a turn about the x axis: the modelled conversions give the values the test expects.
\<close>

lemma fixture_test_pose_to_map:
  "apply_frame fixture_store 2 emptyPose
     \<lparr>position = Vec3 100 200 300, orientation = Quat 1 0 0 0\<rparr> 0 TIME_ZERO ONE_SECOND =
     Some (Inr (True, \<lparr>position = Vec3 (- 91) (- 182) 333, orientation = Quat 0 1 0 0\<rparr>))"
  by (simp add: eval_defs fixture_store_def)

lemma fixture_test_pose_to_base_link:
  "apply_frame fixture_store 0 emptyPose
     \<lparr>position = Vec3 100 200 300, orientation = Quat 1 0 0 0\<rparr> 2 TIME_ZERO ONE_SECOND =
     Some (Inr (True, \<lparr>position = Vec3 (- 109) (- 218) 267, orientation = Quat 0 1 0 0\<rparr>))"
  by (simp add: eval_defs fixture_store_def)

text \<open>
  The matrix built by the invert branch of \<open>Apply\<close> from the matrix of base_link in map,
  multiplied with that matrix, is not the identity: a translation remains.
\<close>

lemma invertRigid_fixture:
  "multiply (invertRigid (Mat4 (- 1) 0 0 0  0 (- 1) 0 0  0 0 1 0  9 18 33 1))
            (Mat4 (- 1) 0 0 0  0 (- 1) 0 0  0 0 1 0  9 18 33 1) =
     Mat4 1 0 0 0  0 1 0 0  0 0 1 0  (- 18) (- 36) 0 1"
  by (simp add: invertRigid_def setTranslation_def)

lemma branch_right_from_left:
  "apply_frame branch_store 2 emptyPose emptyPose 0 TIME_ZERO ONE_SECOND =
     Some (Inr (False, \<lparr>position = Vec3 1 2 3, orientation = Quat 0 0 0 1\<rparr>))"
  by (simp add: eval_defs branch_store_def)

lemmas hop_defs = hop_ok_def findClosestTransforms_def size_avl_def
  clampTo_def maxEntry_def minEntry_def isDiffWithinDelta_def subtract_eq compare_def
  TIME_ZERO_def ONE_SECOND_def areEqual_def

section \<open>Claims\<close>

text \<open>
  C10. For every frame \<open>F\<close>, time and \<open>maxDelta\<close>, \<open>GetTransformMatrix\<close> with \<open>F\<close> as both
  parent and child returns \<open>true\<close> and leaves the identity matrix in \<open>out\<close>. The store \<open>h\<close>
  is arbitrary, so neither the history of \<open>F\<close> nor its parent link matters: the history may
  be empty and the parent absent.
\<close>

theorem GetTransformMatrix_same_frame:
  "GetTransformMatrix h F F time maxDelta = Some (Inr (True, mat4Identity))"
  by (simp add: GetTransformMatrix_def GetTransformMatrix_loop.simps)

text \<open>
  C8. For every pose \<open>p\<close>, frame \<open>X\<close> and time, \<open>apply\<close> from \<open>X\<close> to \<open>X\<close> returns (it does
  not throw and it is not the failure signal) and the output pose has the position and the
  orientation of \<open>p\<close>, whatever the store holds for \<open>X\<close>.
\<close>

theorem apply_same_frame:
  "\<exists>out'. apply_frame h X out p X time maxDelta = Some (Inr (True, out'))
     \<and> position out' = position p \<and> orientation out' = orientation p"
  by (simp add: apply_frame_def)

text \<open>
  C5. Let frame \<open>F\<close> have parent \<open>P\<close> in a store \<open>h\<close>. Then \<open>setParent\<close> of \<open>F\<close> to a frame
  \<open>Q\<close> other than \<open>P\<close> throws the reparenting error and the store is as before (so the
  parent link and the history of \<open>F\<close> are unchanged), and \<open>setParent\<close> of \<open>F\<close> to \<open>P\<close>
  succeeds and changes nothing. Let frame \<open>G\<close> have no parent in any store \<open>h'\<close>, for instance
  one in which no frame has a parent yet. Then \<open>setParent\<close> of \<open>G\<close> to any \<open>R\<close> succeeds and
  sets the parent of \<open>G\<close> to \<open>R\<close>, changing nothing else.
\<close>

theorem setParent_contract:
  assumes "parent (h F) = Some P" and "Q \<noteq> P" and "parent (h' G) = None"
  shows "setParent h F Q =
           (Some (CannotReparent (id_frame (h F)) (id_frame (h P)) (id_frame (h Q))), h)
       \<and> setParent h F P = (None, h)
       \<and> setParent h' G R = (None, h'(G := (h' G)\<lparr>parent := Some R\<rparr>))"
  using assms by (auto simp add: setParent_def fun_eq_iff)

theorem setParent_contract_witness:
  "parent (fixture_store 0) = Some 1 \<and> (2::ref) \<noteq> 1
   \<and> parent (store TransformTree_new 0) = None
   \<and> setParent fixture_store 0 2 =
        (Some (CannotReparent ''base_link'' ''odom'' ''map''), fixture_store)
   \<and> setParent fixture_store 0 1 = (None, fixture_store)
   \<and> setParent (store TransformTree_new) 0 1 =
        (None, (store TransformTree_new)
                 (0 := (store TransformTree_new 0)\<lparr>parent := Some 1\<rparr>))"
proof -
  have a: "parent (fixture_store 0) = Some 1" by (simp add: fixture_store_def)
  have b: "(2::ref) \<noteq> 1" by simp
  have c: "parent (store TransformTree_new 0) = None"
    by (simp add: TransformTree_new_def CoordinateFrame_new_def)
  have ids: "id_frame (fixture_store 0) = ''base_link''" "id_frame (fixture_store (Suc 0)) = ''odom''"
    "id_frame (fixture_store 2) = ''map''"
    by (simp_all add: fixture_store_def)
  show ?thesis
    using setParent_contract [of fixture_store 0 1 2 "store TransformTree_new" 0 1] a b c
    by (simp add: ids)
qed

text \<open>
  C1. The fixture tree is what inserting the edges base_link to odom and odom to map at time
  zero produces, with translation (1,2,3) on the first and translation (10,20,30) and
  rotation (0,0,1,0) on the second; its frames are those of the fixture store. \<open>apply\<close> of
  the identity pose on the frame map with source frame base_link at time zero succeeds with
  position (9,18,33) and orientation (0,0,1,0), and on the frame base_link with source frame
  map it succeeds with position (-9,-18,-33) and the same orientation; the registry's
  \<open>apply\<close> by frame id gives the same.
\<close>

theorem fixture_multi_hop:
  "addTransforms_tree TransformTree_new fixture_edges = Inr fixture_tree
   \<and> store fixture_tree = fixture_store
   \<and> apply_frame fixture_store 2 emptyPose emptyPose 0 TIME_ZERO ONE_SECOND =
       Some (Inr (True, \<lparr>position = Vec3 9 18 33, orientation = Quat 0 0 1 0\<rparr>))
   \<and> apply_frame fixture_store 0 emptyPose emptyPose 2 TIME_ZERO ONE_SECOND =
       Some (Inr (True, \<lparr>position = Vec3 (- 9) (- 18) (- 33), orientation = Quat 0 0 1 0\<rparr>))
   \<and> apply_tree fixture_tree emptyPose emptyPose ''map'' ''base_link'' TIME_ZERO ONE_SECOND =
       Some (Inr (True, \<lparr>position = Vec3 9 18 33, orientation = Quat 0 0 1 0\<rparr>))
   \<and> apply_tree fixture_tree emptyPose emptyPose ''base_link'' ''map'' TIME_ZERO ONE_SECOND =
       Some (Inr (True, \<lparr>position = Vec3 (- 9) (- 18) (- 33), orientation = Quat 0 0 1 0\<rparr>))"
  using fixture_tree_built fixture_map_from_base_link fixture_base_link_from_map
  by (simp add: apply_tree_def fixture_tree_def)

text \<open>
  C2. On the fixture store the round trip does not return the pose it started from: the
  identity pose taken from base_link (frame 0) to map (frame 2) is at position (9,18,33),
  and that pose taken back from map to base_link is at position (-18,-36,0), not at the
  origin. The inverted matrix keeps the negated translation of the forward matrix without
  rotating it, so it is not the inverse of the forward matrix unless the rotation or the
  translation is trivial.
\<close>

theorem fixture_round_trip:
  "apply_frame fixture_store 2 emptyPose emptyPose 0 TIME_ZERO ONE_SECOND =
     Some (Inr (True, \<lparr>position = Vec3 9 18 33, orientation = Quat 0 0 1 0\<rparr>))
   \<and> apply_frame fixture_store 0 emptyPose
       \<lparr>position = Vec3 9 18 33, orientation = Quat 0 0 1 0\<rparr> 2 TIME_ZERO ONE_SECOND =
     Some (Inr (True, \<lparr>position = Vec3 (- 18) (- 36) 0, orientation = Quat 0 0 0 1\<rparr>))
   \<and> position emptyPose = Vec3 0 0 0"
  using fixture_map_from_base_link fixture_back_to_base_link by (simp add: emptyPose_def)

text \<open>
  C9. \<open>apply\<close> is not atomic on failure. In the branch store (which is what inserting the
  two branch edges into an empty registry produces, lemma \<open>branch_tree_built\<close>) taking the
  identity pose from left (frame 0) to right (frame 2) at time zero goes through the common
  parent root: the first half (left to root) succeeds and writes position (1,2,3) to the
  output pose, the second half (root to right) finds no transform within one second of time
  zero, and \<open>apply\<close> returns the failure signal with the output pose changed.
\<close>

theorem apply_failure_overwrites_out:
  "apply_frame branch_store 2 emptyPose emptyPose 0 TIME_ZERO ONE_SECOND =
     Some (Inr (False, \<lparr>position = Vec3 1 2 3, orientation = Quat 0 0 0 1\<rparr>))
   \<and> \<lparr>position = Vec3 1 2 3, orientation = Quat 0 0 0 1\<rparr> \<noteq> emptyPose"
  using branch_right_from_left by (simp add: emptyPose_def)

text \<open>
  C6. Retention. The history of a frame is in strictly increasing key order: a new frame
  has an empty history and \<open>addTransform\<close> keeps the order (lemma \<open>addTransforms_sorted\<close>
  covers every sequence of calls). For such a frame \<open>addTransform\<close> never throws; the history
  with the entry set splits into the entries dropped from the oldest end and the entries
  kept; every dropped entry is strictly older than the newest key minus \<open>maxStorageTime\<close>;
  the loop stops because one entry is left or because the oldest kept key is not older than
  that; so at least one entry is kept and the newest entry is kept. Setting at a key that is
  present replaces its value and adds no entry: the keys stay strictly increasing, the only
  entry at the given time holds the given transform, every other entry stays, no other entry
  appears, and the length grows only for a new key.
\<close>

theorem addTransform_retention:
  assumes "sorted_keys (transforms this)"
  shows "\<exists>newest startTime dropped kept.
     maxKey (set_avl time transform (transforms this)) = Some newest
     \<and> subtract newest (maxStorageTime this) = Inr startTime
     \<and> addTransform this time transform = Inr (this\<lparr>transforms := kept\<rparr>)
     \<and> set_avl time transform (transforms this) = dropped @ kept
     \<and> (\<forall>e \<in> set dropped. isLessThan (fst e) startTime)
     \<and> (size_avl kept = 1 \<or> (\<exists>k. minKey kept = Some k \<and> \<not> isLessThan k startTime))
     \<and> kept \<noteq> []
     \<and> maxEntry kept = maxEntry (set_avl time transform (transforms this))
     \<and> sorted_keys kept
     \<and> sorted_keys (set_avl time transform (transforms this))
     \<and> (time, transform) \<in> set (set_avl time transform (transforms this))
     \<and> (\<forall>e \<in> set (set_avl time transform (transforms this)).
           fst e = time \<longrightarrow> snd e = transform)
     \<and> (\<forall>e \<in> set (transforms this).
           fst e \<noteq> time \<longrightarrow> e \<in> set (set_avl time transform (transforms this)))
     \<and> set (set_avl time transform (transforms this))
           \<subseteq> insert (time, transform) (set (transforms this))
     \<and> length (set_avl time transform (transforms this)) =
         (if time \<in> fst ` set (transforms this) then length (transforms this)
          else Suc (length (transforms this)))"
proof -
  let ?ts = "set_avl time transform (transforms this)"
  from addTransform_unfold [of time transform this]
  obtain newest startTime dropped kept where r:
      "maxKey ?ts = Some newest"
      "subtract newest (maxStorageTime this) = Inr startTime"
      "addTransform this time transform = Inr (this\<lparr>transforms := kept\<rparr>)"
      "?ts = dropped @ kept"
      "\<forall>e \<in> set dropped. isLessThan (fst e) startTime"
      "size_avl kept = 1 \<or> (\<exists>k. minKey kept = Some k \<and> \<not> isLessThan k startTime)"
      "kept \<noteq> []"
    by blast
  have sorted: "sorted_keys ?ts" using assms by (rule set_avl_sorted)
  then have kept_sorted: "sorted_keys kept" using r(4) sorted_keys_suffix by metis
  have newest: "maxEntry kept = maxEntry ?ts"
    using r(4,7) by (simp add: maxEntry_def)
  have mem: "(time, transform) \<in> set ?ts" by (rule set_avl_member)
  have uniq: "\<forall>e \<in> set ?ts. fst e = time \<longrightarrow> snd e = transform"
    using sorted_keys_unique [OF sorted _ mem] by fastforce
  have others: "\<forall>e \<in> set (transforms this). fst e \<noteq> time \<longrightarrow> e \<in> set ?ts"
    using set_avl_others by blast
  have sub: "set ?ts \<subseteq> insert (time, transform) (set (transforms this))"
    by (rule set_avl_subset)
  have len: "length ?ts = (if time \<in> fst ` set (transforms this) then length (transforms this)
          else Suc (length (transforms this)))"
    using assms by (rule set_avl_length)
  show ?thesis
    apply (rule exI [of _ newest], rule exI [of _ startTime])
    apply (rule exI [of _ dropped], rule exI [of _ kept])
    using r sorted kept_sorted newest mem uniq others sub len
    apply (intro conjI)
    apply assumption+
    done
qed

theorem addTransform_retention_witness:
  "sorted_keys (transforms retention_frame)
   \<and> addTransform retention_frame \<lparr>sec = 12, nsec = 0\<rparr> Identity =
       Inr (retention_frame\<lparr>transforms :=
              [(\<lparr>sec = 5, nsec = 0\<rparr>, Identity), (\<lparr>sec = 12, nsec = 0\<rparr>, Identity)]\<rparr>)
   \<and> (\<exists>newest startTime dropped kept.
     maxKey (set_avl \<lparr>sec = 12, nsec = 0\<rparr> Identity (transforms retention_frame)) = Some newest
     \<and> subtract newest (maxStorageTime retention_frame) = Inr startTime
     \<and> addTransform retention_frame \<lparr>sec = 12, nsec = 0\<rparr> Identity =
         Inr (retention_frame\<lparr>transforms := kept\<rparr>)
     \<and> set_avl \<lparr>sec = 12, nsec = 0\<rparr> Identity (transforms retention_frame) = dropped @ kept
     \<and> kept \<noteq> [] \<and> sorted_keys kept)"
proof -
  have s: "sorted_keys (transforms retention_frame)"
    by (simp add: retention_frame_def sorted_keys_def compare_def TIME_ZERO_def)
  have e: "addTransform retention_frame \<lparr>sec = 12, nsec = 0\<rparr> Identity =
       Inr (retention_frame\<lparr>transforms :=
              [(\<lparr>sec = 5, nsec = 0\<rparr>, Identity), (\<lparr>sec = 12, nsec = 0\<rparr>, Identity)]\<rparr>)"
    by (simp add: retention_frame_def addTransform_def addTransform_loop.simps maxKey_def
        maxEntry_def minKey_def minEntry_def shift_def size_avl_def subtract_eq compare_def
        isLessThan_def TIME_ZERO_def DEFAULT_MAX_STORAGE_TIME_def)
  from addTransform_retention [OF s, of "\<lparr>sec = 12, nsec = 0\<rparr>" Identity]
  have "\<exists>newest startTime dropped kept.
     maxKey (set_avl \<lparr>sec = 12, nsec = 0\<rparr> Identity (transforms retention_frame)) = Some newest
     \<and> subtract newest (maxStorageTime retention_frame) = Inr startTime
     \<and> addTransform retention_frame \<lparr>sec = 12, nsec = 0\<rparr> Identity =
         Inr (retention_frame\<lparr>transforms := kept\<rparr>)
     \<and> set_avl \<lparr>sec = 12, nsec = 0\<rparr> Identity (transforms retention_frame) = dropped @ kept
     \<and> kept \<noteq> [] \<and> sorted_keys kept"
    by blast
  with s e show ?thesis by blast
qed


text \<open>
  C4, as stated, fails: on the fixture store base_link is not an ancestor of odom, the walk
  from odom reaches map, which has no parent, before it reaches base_link, and
  \<open>GetTransformMatrix\<close> returns \<open>false\<close>; it does not throw. The lookup of a frame is done
  before its parent is examined, and map, like every frame that is only ever named as a
  parent, has an empty history.
\<close>

theorem GetTransformMatrix_no_parent_returns_false:
  "findAncestor fixture_store 1 ''base_link'' = Some None
   \<and> hops fixture_store 0 TIME_ZERO ONE_SECOND 1 1 = Some 2 \<and> (2::ref) \<noteq> 0
   \<and> parent (fixture_store 2) = None
   \<and> GetTransformMatrix fixture_store 0 1 TIME_ZERO ONE_SECOND =
       Some (Inr (False, Mat4 (- 1) 0 0 0  0 (- 1) 0 0  0 0 1 0  10 20 30 1))"
  by (simp add: eval_defs hop_ok_def fixture_store_def)

text \<open>
  C4, amended. The walk from \<open>C\<close> toward \<open>P\<close> passes frames that differ from \<open>P\<close>, have a
  bracket within \<open>maxDelta\<close> and have a parent. \<open>GetTransformMatrix\<close> returns \<open>false\<close>, without
  throwing, exactly when the walk arrives at a frame other than \<open>P\<close> that has no bracket,
  whether that frame has a parent or not; it throws, and then the not-a-parent error,
  exactly when the walk arrives at a frame other than \<open>P\<close> that has a bracket and no parent;
  it returns \<open>true\<close> exactly when the walk arrives at \<open>P\<close>.
\<close>

theorem GetTransformMatrix_asymmetry:
  "(GetTransformMatrix h P C time maxDelta = Some (Inl e) \<longleftrightarrow>
      e = NotAParent (id_frame (h P)) (id_frame (h C)) \<and>
      (\<exists>n E. hops h P time maxDelta n C = Some E \<and> E \<noteq> P \<and>
             hop_ok (h E) time maxDelta \<and> parent (h E) = None))
   \<and> ((\<exists>out. GetTransformMatrix h P C time maxDelta = Some (Inr (False, out))) \<longleftrightarrow>
      (\<exists>n E. hops h P time maxDelta n C = Some E \<and> E \<noteq> P \<and>
             findClosestTransforms (h E) time maxDelta = Inr None))
   \<and> ((\<exists>out. GetTransformMatrix h P C time maxDelta = Some (Inr (True, out))) \<longleftrightarrow>
      (\<exists>n. hops h P time maxDelta n C = Some P))"
proof -
  have loop_eq: "GetTransformMatrix h P C time maxDelta =
      GetTransformMatrix_loop h P C time maxDelta C mat4Identity"
    by (simp add: GetTransformMatrix_def)
  have reach: "\<exists>out. GetTransformMatrix h P C time maxDelta =
      GetTransformMatrix_loop h P C time maxDelta E out"
    if "hops h P time maxDelta n C = Some E" for n E
    using GetTransformMatrix_loop_hops [OF that, of C mat4Identity] by (simp add: loop_eq)
  have thrown: "GetTransformMatrix h P C time maxDelta = Some (Inl e) \<longleftrightarrow>
      e = NotAParent (id_frame (h P)) (id_frame (h C)) \<and>
      (\<exists>n E. hops h P time maxDelta n C = Some E \<and> E \<noteq> P \<and>
             hop_ok (h E) time maxDelta \<and> parent (h E) = None)"
  proof (rule iffI)
    assume "GetTransformMatrix h P C time maxDelta = Some (Inl e)"
    then have "GetTransformMatrix_loop h P C time maxDelta C mat4Identity = Some (Inl e)"
      by (simp add: loop_eq)
    from GetTransformMatrix_loop_result [OF this]
    show "e = NotAParent (id_frame (h P)) (id_frame (h C)) \<and>
      (\<exists>n E. hops h P time maxDelta n C = Some E \<and> E \<noteq> P \<and>
             hop_ok (h E) time maxDelta \<and> parent (h E) = None)"
      by simp
  next
    assume "e = NotAParent (id_frame (h P)) (id_frame (h C)) \<and>
      (\<exists>n E. hops h P time maxDelta n C = Some E \<and> E \<noteq> P \<and>
             hop_ok (h E) time maxDelta \<and> parent (h E) = None)"
    then obtain n E where e: "e = NotAParent (id_frame (h P)) (id_frame (h C))"
        and w: "hops h P time maxDelta n C = Some E" "E \<noteq> P"
          "hop_ok (h E) time maxDelta" "parent (h E) = None"
      by blast
    from reach [OF w(1)] show "GetTransformMatrix h P C time maxDelta = Some (Inl e)"
      using w(2,3,4) e by (auto simp: GetTransformMatrix_loop_no_parent)
  qed
  have missed: "(\<exists>out. GetTransformMatrix h P C time maxDelta = Some (Inr (False, out))) \<longleftrightarrow>
      (\<exists>n E. hops h P time maxDelta n C = Some E \<and> E \<noteq> P \<and>
             findClosestTransforms (h E) time maxDelta = Inr None)"
  proof (rule iffI)
    assume "\<exists>out. GetTransformMatrix h P C time maxDelta = Some (Inr (False, out))"
    then obtain out where
        "GetTransformMatrix_loop h P C time maxDelta C mat4Identity = Some (Inr (False, out))"
      by (auto simp: loop_eq)
    from GetTransformMatrix_loop_result [OF this]
    show "\<exists>n E. hops h P time maxDelta n C = Some E \<and> E \<noteq> P \<and>
             findClosestTransforms (h E) time maxDelta = Inr None"
      by simp
  next
    assume "\<exists>n E. hops h P time maxDelta n C = Some E \<and> E \<noteq> P \<and>
             findClosestTransforms (h E) time maxDelta = Inr None"
    then obtain n E where w: "hops h P time maxDelta n C = Some E" "E \<noteq> P"
        "findClosestTransforms (h E) time maxDelta = Inr None"
      by blast
    from reach [OF w(1)]
    show "\<exists>out. GetTransformMatrix h P C time maxDelta = Some (Inr (False, out))"
      using w(2,3) by (auto simp: GetTransformMatrix_loop_no_bracket)
  qed
  have arrived: "(\<exists>out. GetTransformMatrix h P C time maxDelta = Some (Inr (True, out))) \<longleftrightarrow>
      (\<exists>n. hops h P time maxDelta n C = Some P)"
  proof (rule iffI)
    assume "\<exists>out. GetTransformMatrix h P C time maxDelta = Some (Inr (True, out))"
    then obtain out where
        "GetTransformMatrix_loop h P C time maxDelta C mat4Identity = Some (Inr (True, out))"
      by (auto simp: loop_eq)
    from GetTransformMatrix_loop_result [OF this]
    show "\<exists>n. hops h P time maxDelta n C = Some P" by simp
  next
    assume "\<exists>n. hops h P time maxDelta n C = Some P"
    then obtain n where w: "hops h P time maxDelta n C = Some P" by blast
    from reach [OF w]
    show "\<exists>out. GetTransformMatrix h P C time maxDelta = Some (Inr (True, out))"
      by (auto simp: GetTransformMatrix_loop_at_parent)
  qed
  from thrown missed arrived show ?thesis by (intro conjI)
qed

theorem GetTransformMatrix_asymmetry_witness:
  "hops fixture_store 0 TIME_ZERO ONE_SECOND 1 1 = Some 2 \<and> (2::ref) \<noteq> 0
   \<and> findClosestTransforms (fixture_store 2) TIME_ZERO ONE_SECOND = Inr None
   \<and> hops orphan_store 1 TIME_ZERO ONE_SECOND 0 0 = Some 0 \<and> (0::ref) \<noteq> 1
   \<and> hop_ok (orphan_store 0) TIME_ZERO ONE_SECOND \<and> parent (orphan_store 0) = None
   \<and> (\<exists>out. GetTransformMatrix fixture_store 0 1 TIME_ZERO ONE_SECOND = Some (Inr (False, out)))
   \<and> GetTransformMatrix orphan_store 1 0 TIME_ZERO ONE_SECOND =
       Some (Inl (NotAParent [] ''base_link''))
   \<and> (\<forall>n. hops orphan_store 1 TIME_ZERO ONE_SECOND n 0 \<noteq> Some 1)"
proof -
  have a: "hops fixture_store 0 TIME_ZERO ONE_SECOND 1 1 = Some 2"
    by (simp add: hop_defs fixture_store_def)
  have b: "(2::ref) \<noteq> 0" by simp
  have c: "findClosestTransforms (fixture_store 2) TIME_ZERO ONE_SECOND = Inr None"
    by (simp add: hop_defs fixture_store_def)
  have d: "hops orphan_store 1 TIME_ZERO ONE_SECOND 0 0 = Some 0" by simp
  have e: "(0::ref) \<noteq> 1" by simp
  have f: "hop_ok (orphan_store 0) TIME_ZERO ONE_SECOND"
    by (simp add: hop_defs orphan_store_def retention_frame_def)
  have g: "parent (orphan_store 0) = None"
    by (simp add: orphan_store_def retention_frame_def)
  have ids: "id_frame (orphan_store 1) = []" "id_frame (orphan_store 0) = ''base_link''"
    by (simp_all add: orphan_store_def retention_frame_def CoordinateFrame_new_def)
  have miss: "\<exists>out. GetTransformMatrix fixture_store 0 1 TIME_ZERO ONE_SECOND =
      Some (Inr (False, out))"
    using GetTransformMatrix_asymmetry [of fixture_store 0 1 TIME_ZERO ONE_SECOND] a b c
    by blast
  have thrown: "GetTransformMatrix orphan_store 1 0 TIME_ZERO ONE_SECOND =
      Some (Inl (NotAParent (id_frame (orphan_store 1)) (id_frame (orphan_store 0))))"
    using GetTransformMatrix_asymmetry [of orphan_store 1 0 TIME_ZERO ONE_SECOND
        "NotAParent (id_frame (orphan_store 1)) (id_frame (orphan_store 0))"] d e f g
    by blast
  have "(\<exists>out. GetTransformMatrix orphan_store 1 0 TIME_ZERO ONE_SECOND =
            Some (Inr (True, out))) \<longleftrightarrow>
         (\<exists>n. hops orphan_store 1 TIME_ZERO ONE_SECOND n 0 = Some 1)"
    using GetTransformMatrix_asymmetry [of orphan_store 1 0 TIME_ZERO ONE_SECOND] by blast
  then have never: "\<forall>n. hops orphan_store 1 TIME_ZERO ONE_SECOND n 0 \<noteq> Some 1"
    using thrown by auto
  from a b c d e f g miss thrown never show ?thesis by (simp only: ids) blast
qed

text \<open>
  C3, at a failing input. A frame whose only entry is at 0.5 seconds is queried at time zero
  with \<open>maxDelta\<close> of one second. The absolute difference is half a second, within
  \<open>maxDelta\<close>, yet \<open>findClosestTransforms\<close> returns \<open>false\<close>: \<open>isDiffWithinDelta\<close> takes the
  absolute value of the seconds field only, and the normalised difference of minus half a
  second is (-1 s, 500000000 ns), which becomes 1.5 seconds. Lemma \<open>isDiffWithinDelta_nanos\<close>
  gives the quantity compared with \<open>maxDelta\<close> for any two times; the lemmas of the section
  on the lookup cover the empty history, the single entry, the exact match, the query after
  the newest entry and the interior bracket.
\<close>

theorem findClosestTransforms_early_query:
  "addTransform (CoordinateFrame_new ''base_link'' None DEFAULT_MAX_STORAGE_TIME)
     HALF_SECOND Identity = Inr late_frame
   \<and> findClosestTransforms late_frame TIME_ZERO ONE_SECOND = Inr None
   \<and> \<bar>toNanoSec TIME_ZERO - toNanoSec HALF_SECOND\<bar> \<le> toNanoSec ONE_SECOND"
  by (simp add: hop_defs late_frame_def HALF_SECOND_def toNanoSec_def CoordinateFrame_new_def
      addTransform_def addTransform_loop.simps maxKey_def)

text \<open>
  C7. Interpolation contract. For a pair of entries with equal times, \<open>Interpolate\<close> returns
  the upper entry: its time in \<open>outTime\<close> (when one is passed) and its transform, whatever the
  query time; no fraction is computed. For a pair of entries with distinct well-formed times
  the divisor of the fraction is not zero; the fraction is the share of the way from the lower
  to the upper time at which the query time lies, clamped to the unit interval; the transform
  returned has the component-wise linear interpolation of the translations, the normalised
  spherical interpolation of the rotations, and the matrix of the two; and the time returned
  (when \<open>outTime\<close> is passed) is the interpolated time, which, when the time library accepts
  it, is the lower time plus the fraction of the distance, rounded to a nanosecond. The two
  cases are stated for two pairs of entries.
\<close>

theorem Interpolate_contract:
  assumes "areEqual (fst lower) (fst upper)"
    and "\<not> areEqual (fst lower') (fst upper')"
    and "wf_time (fst lower')" and "wf_time (fst upper')"
  shows "Interpolate outTime lower upper time =
           Inr (map_option (\<lambda>ot. fst upper) outTime, snd upper)
     \<and> toNanoSec (fst upper') - toNanoSec (fst lower') \<noteq> 0
     \<and> (let fraction = max 0 (min 1
              (real_of_int (toNanoSec time' - toNanoSec (fst lower')) /
               real_of_int (toNanoSec (fst upper') - toNanoSec (fst lower'))));
             tf = Interpolate_t (snd lower') (snd upper') fraction
         in 0 \<le> fraction \<and> fraction \<le> 1
          \<and> Interpolate None lower' upper' time' = Inr (None, tf)
          \<and> Interpolate (Some ot) lower' upper' time' =
              (case interpolate (fst lower') (fst upper') fraction of
                 Inl e \<Rightarrow> Inl e
               | Inr t' \<Rightarrow> Inr (Some t', tf))
          \<and> (\<forall>t'. interpolate (fst lower') (fst upper') fraction = Inr t' \<longrightarrow>
                wf_time t' \<and>
                toNanoSec t' = toNanoSec (fst lower') +
                  \<lfloor>fraction * real_of_int (toNanoSec (fst upper') - toNanoSec (fst lower'))
                     + 1 / 2\<rfloor>)
          \<and> position_t tf = lerp (position_t (snd lower')) (position_t (snd upper')) fraction
          \<and> rotation_t tf =
              normalize (slerp (rotation_t (snd lower')) (rotation_t (snd upper')) fraction)
          \<and> matrix_t tf = fromRotationTranslation (rotation_t tf) (position_t tf))"
proof -
  have eq: "Interpolate outTime lower upper time =
           Inr (map_option (\<lambda>ot. fst upper) outTime, snd upper)"
    using assms(1) by (rule Interpolate_equal_times)
  have ne: "toNanoSec (fst upper') - toNanoSec (fst lower') \<noteq> 0"
    using wf_time_nanos_inj [OF assms(3,4)] assms(2) by auto
  define fraction where "fraction = fractionOf (fst lower') (fst upper') time'"
  have range: "0 \<le> fraction" "fraction \<le> 1"
    by (simp_all add: fraction_def fractionOf_def)
  have interp: "\<forall>t'. interpolate (fst lower') (fst upper') fraction = Inr t' \<longrightarrow>
                wf_time t' \<and>
                toNanoSec t' = toNanoSec (fst lower') +
                  \<lfloor>fraction * real_of_int (toNanoSec (fst upper') - toNanoSec (fst lower'))
                     + 1 / 2\<rfloor>"
    using interpolate_nanos by blast
  have i1: "Interpolate None lower' upper' time' =
      Inr (None, Interpolate_t (snd lower') (snd upper') fraction)"
    unfolding fraction_def by (rule Interpolate_distinct_times(1) [OF assms(2)])
  have i2: "Interpolate (Some ot) lower' upper' time' =
      (case interpolate (fst lower') (fst upper') fraction of
         Inl e \<Rightarrow> Inl e
       | Inr t' \<Rightarrow> Inr (Some t', Interpolate_t (snd lower') (snd upper') fraction))"
    unfolding fraction_def by (rule Interpolate_distinct_times(2) [OF assms(2)])
  show ?thesis
    unfolding Let_def fractionOf_def [symmetric] fraction_def [symmetric]
    using eq ne range interp i1 i2 Interpolate_t_fields [of "snd lower'" "snd upper'" fraction]
    by (intro conjI) assumption+
qed


theorem Interpolate_contract_witness:
  "areEqual (fst interp_upper) (fst interp_upper)
   \<and> \<not> areEqual (fst interp_lower) (fst interp_upper)
   \<and> wf_time (fst interp_lower) \<and> wf_time (fst interp_upper)
   \<and> Interpolate (Some TIME_ZERO) interp_upper interp_upper ONE_SECOND =
       Inr (Some \<lparr>sec = 2, nsec = 0\<rparr>, snd interp_upper)
   \<and> Interpolate None interp_lower interp_upper ONE_SECOND =
       Inr (None, setPositionRotation (Vec3 1 2 3) (Quat 0 0 0 1))
   \<and> Interpolate (Some TIME_ZERO) interp_lower interp_upper ONE_SECOND =
       Inr (Some ONE_SECOND, setPositionRotation (Vec3 1 2 3) (Quat 0 0 0 1))"
proof -
  have a: "areEqual (fst interp_upper) (fst interp_upper)" by (simp add: areEqual_def)
  have b: "\<not> areEqual (fst interp_lower) (fst interp_upper)"
    by (simp add: areEqual_def interp_lower_def interp_upper_def TIME_ZERO_def)
  have c: "wf_time (fst interp_lower)" by (simp add: wf_time_def interp_lower_def TIME_ZERO_def)
  have d: "wf_time (fst interp_upper)" by (simp add: wf_time_def interp_upper_def)
  have f: "max 0 (min 1
              (real_of_int (toNanoSec ONE_SECOND - toNanoSec (fst interp_lower)) /
               real_of_int (toNanoSec (fst interp_upper) - toNanoSec (fst interp_lower)))) = 1 / 2"
    by (simp add: toNanoSec_def ONE_SECOND_def interp_lower_def interp_upper_def TIME_ZERO_def)
  have tf: "Interpolate_t (snd interp_lower) (snd interp_upper) (1 / 2) =
      setPositionRotation (Vec3 1 2 3) (Quat 0 0 0 1)"
    by (simp add: Interpolate_t_def interp_lower_def interp_upper_def setPositionRotation_def
        Let_def EPSILON_def)
  have t: "interpolate (fst interp_lower) (fst interp_upper) (1 / 2) = Inr ONE_SECOND"
    by (simp add: interpolate_def subtract_eq add_def fixTime_def fromSec_def trunc_def
        jsrem_def toSec_def Let_def interp_lower_def interp_upper_def TIME_ZERO_def
        ONE_SECOND_def)
  from Interpolate_contract [OF a b c d, of "Some TIME_ZERO" ONE_SECOND ONE_SECOND TIME_ZERO]
  show ?thesis
    unfolding Let_def f tf t using a b c d by (simp add: interp_upper_def)
qed

end
